theory Spec2Isabelle
  imports Main
begin

section \<open>Arbitrary-precision integers (web3.utils.toBN, bn.js)\<close>

text \<open>
  The monitor computes with \<open>BN\<close> objects of bn.js, obtained through \<open>web3.utils.toBN\<close>.
  A \<open>BN\<close> is an unbounded integer, modelled as \<open>int\<close>; \<open>toBN\<close> of a decimal string or
  of a \<open>BN\<close> is that integer. \<open>mul\<close> and \<open>muln\<close> are exact. \<open>div\<close> truncates toward
  zero and asserts a non-zero divisor: on a zero divisor the assertion of bn.js fails and
  throws a plain \<open>Error\<close> whose message is \<open>Assertion failed\<close>, so the model returns
  that error there instead of HOL's \<open>x div 0 = 0\<close>.

  What the module can throw: a plain \<open>Error\<close> with its message (the failed assertion
  of bn.js, or whatever a rejected contract read carries), and the \<open>TypeError\<close> of
  calling a method on \<open>null\<close>, whose message depends on the engine.
\<close>

datatype error = Error string | TypeError

definition BN_mul :: "int \<Rightarrow> int \<Rightarrow> int" where
  "BN_mul a b = a * b"

definition BN_muln :: "int \<Rightarrow> int \<Rightarrow> int" where
  "BN_muln a n = a * n"

definition BN_div :: "int \<Rightarrow> int \<Rightarrow> error + int" where
  "BN_div a b =
     (if b = 0 then Inl (Error ''Assertion failed'')
      else Inr (sgn a * sgn b * (\<bar>a\<bar> div \<bar>b\<bar>)))"

text \<open>\<open>toWei("1")\<close>: one unit of the 18-decimal fixed-point scale.\<close>

definition toWei1 :: int where
  "toWei1 = 10 ^ 18"

section \<open>Derived metrics of a liquidation\<close>

text \<open>
  \<open>calculatePositionCRPercent\<close>: \<open>toBN(collateral).mul(1e18).mul(1e18)
  .div(toBN(tokensOutstanding).mul(toBN(tokenPrice))).muln(100)\<close>.
\<close>

definition calculatePositionCRPercent :: "int \<Rightarrow> int \<Rightarrow> int \<Rightarrow> error + int" where
  "calculatePositionCRPercent collateral tokensOutstanding tokenPrice =
     (case BN_div (BN_mul (BN_mul collateral toWei1) toWei1)
                  (BN_mul tokensOutstanding tokenPrice) of
        Inl e \<Rightarrow> Inl e
      | Inr q \<Rightarrow> Inr (BN_muln q 100))"

text \<open>
  \<open>calculateDisputablePrice\<close>: \<open>toBN(liquidatedCollateral).mul(1e18)
  .div(toBN(liquidatedTokens)).mul(1e18).div(toBN(crRequirement))\<close>.
\<close>

definition calculateDisputablePrice :: "int \<Rightarrow> int \<Rightarrow> int \<Rightarrow> error + int" where
  "calculateDisputablePrice crRequirement liquidatedCollateral liquidatedTokens =
     (case BN_div (BN_mul liquidatedCollateral toWei1) liquidatedTokens of
        Inl e \<Rightarrow> Inl e
      | Inr q \<Rightarrow> BN_div (BN_mul q toWei1) crRequirement)"

text \<open>
  The two formulas as the specification words them, over the mathematical integers with
  the quotient rounded toward zero.
\<close>

definition quotient :: "int \<Rightarrow> int \<Rightarrow> int" where
  "quotient a b = sgn a * sgn b * (\<bar>a\<bar> div \<bar>b\<bar>)"

definition collateralizationRatioPercent_spec :: "int \<Rightarrow> int \<Rightarrow> int \<Rightarrow> int" where
  "collateralizationRatioPercent_spec collateral tokensOutstanding price =
     quotient (collateral * 10 ^ 18 * 10 ^ 18) (tokensOutstanding * price) * 100"

definition disputablePriceThreshold_spec :: "int \<Rightarrow> int \<Rightarrow> int \<Rightarrow> int" where
  "disputablePriceThreshold_spec collateralRequirementRatio liquidatedCollateral liquidatedTokens =
     quotient (quotient (liquidatedCollateral * 10 ^ 18) liquidatedTokens * 10 ^ 18)
              collateralRequirementRatio"

section \<open>Events, configuration and collaborators\<close>

text \<open>
  Every event of the event client carries a transaction hash and a block number; the four
  categories extend this envelope with their own fields. Amounts are the 18-decimal
  integers of the contract, block numbers are natural numbers.
\<close>

record event =
  transactionHash :: string
  blockNumber :: nat

record NewSponsorEvent = event +
  sponsor :: string
  tokenAmount :: int
  collateralAmount :: int

record LiquidationEvent = event +
  sponsor :: string
  liquidator :: string
  liquidationId :: nat
  lockedCollateral :: int
  liquidatedCollateral :: int
  tokensOutstanding :: int

record DisputeEvent = event +
  disputer :: string
  liquidator :: string
  disputeBondAmount :: int

record DisputeSettlementEvent = event +
  liquidator :: string
  disputer :: string
  disputeSucceeded :: bool

record EmpProps =
  collateralCurrencySymbol :: string
  syntheticCurrencySymbol :: string
  priceIdentifier :: string
  networkId :: nat

record contractMonitorConfigObject =
  monitoredLiquidators :: "string list"
  monitoredDisputers :: "string list"

text \<open>
  The collaborators are not part of the module; they enter as parameters.
  \<^item> \<open>priceFeed.getHistoricalPrice(time)\<close> returns a \<open>BN\<close> or nothing.
  \<open>None\<close> is the falsy answer of the test \<open>if (price)\<close>; a \<open>BN\<close> object is truthy
  whatever its value, zero included.
  \<^item> \<open>empContract.methods.liquidations(sponsor, id).call()\<close> yields the liquidation
  time, \<open>collateralRequirement().call()\<close> the collateral requirement. Each call is
  awaited and may reject: it answers with a value or with the error the \<open>await\<close>
  throws, and it gives the same answer whenever it is repeated. The liquidation time is a
  natural number, and \<open>parseInt(liquidationTime.toString())\<close> is that number.
  \<^item> \<open>FormattingUtils\<close> provides \<open>createFormatFunction\<close> and
  \<open>createEtherscanLinkMarkdown\<close>. The function returned by \<open>createFormatFunction\<close>
  renders a number as a string; what it renders is a parameter. It is defined on numbers
  only: it starts by calling \<open>toString()\<close> on its argument, so applied to the absent
  price (\<open>null\<close>) it throws a \<open>TypeError\<close>. The model writes that throw where the
  module applies the function to the price (\<open>liquidationMrkdwn\<close>).
\<close>

record PriceFeed =
  getHistoricalPrice :: "nat \<Rightarrow> int option"

record EmpContract =
  liquidations :: "string \<Rightarrow> nat \<Rightarrow> error + nat"
  collateralRequirement :: "error + int"

record expiringMultiPartyEventClient =
  emp :: EmpContract

record FormattingUtils =
  createFormatFunction :: "nat \<Rightarrow> nat \<Rightarrow> int \<Rightarrow> string"
  createEtherscanLinkMarkdown :: "string \<Rightarrow> nat \<Rightarrow> string"

section \<open>The logger\<close>

text \<open>
  A call of \<open>logger.debug\<close>, \<open>logger.info\<close> or \<open>logger.warn\<close> appends one entry
  to the output of the method. The entry keeps the level, the \<open>at\<close> and \<open>message\<close>
  fields and the remaining keys of the logged object. Message titles hold the bytes of
  the source file (UTF-8).
\<close>

datatype level = Debug | Info | Warn

datatype logValue =
    Text string
  | Number nat
  | BigNumber "int option"
  | Decimal nat \<comment> \<open>a number logged through \<open>toString()\<close>\<close>

record logEntry =
  level :: level
  at :: string
  message :: string
  details :: "(string \<times> logValue) list"

section \<open>The monitor\<close>

text \<open>
  The object \<open>this\<close>. The constructor assigns every field but
  \<open>syntheticCurrencySymbol\<close>: the symbol is stored inside \<open>empProps\<close> only, and no
  method assigns the property, so reading \<open>this.syntheticCurrencySymbol\<close> yields
  \<open>undefined\<close> (\<open>None\<close>).
\<close>

record ContractMonitor =
  monitoredLiquidators :: "string list"
  monitoredDisputers :: "string list"
  priceFeed :: PriceFeed
  empContract :: EmpContract
  lastLiquidationBlockNumber :: nat
  lastDisputeBlockNumber :: nat
  lastDisputeSettlementBlockNumber :: nat
  lastNewSponsorBlockNumber :: nat
  empProps :: EmpProps
  formatDecimalString :: "int \<Rightarrow> string"
  syntheticCurrencySymbol :: "string option"

definition "constructor" ::
  "FormattingUtils \<Rightarrow> expiringMultiPartyEventClient \<Rightarrow> contractMonitorConfigObject
     \<Rightarrow> PriceFeed \<Rightarrow> EmpProps \<Rightarrow> ContractMonitor" where
  "constructor U client config feed props =
     \<lparr> monitoredLiquidators = contractMonitorConfigObject.monitoredLiquidators config,
       monitoredDisputers = contractMonitorConfigObject.monitoredDisputers config,
       priceFeed = feed,
       empContract = emp client,
       lastLiquidationBlockNumber = 0,
       lastDisputeBlockNumber = 0,
       lastDisputeSettlementBlockNumber = 0,
       lastNewSponsorBlockNumber = 0,
       empProps = props,
       formatDecimalString = createFormatFunction U 2 4,
       syntheticCurrencySymbol = None \<rparr>"

text \<open>String concatenation with a property that may be \<open>undefined\<close>.\<close>

definition jsString :: "string option \<Rightarrow> string" where
  "jsString v = (case v of None \<Rightarrow> ''undefined'' | Some s \<Rightarrow> s)"

text \<open>\<open>Array.prototype.indexOf\<close>: the first index of the element, \<open>-1\<close> if there is none.\<close>

primrec indexOf :: "'a list \<Rightarrow> 'a \<Rightarrow> int" where
  "indexOf [] x = - 1"
| "indexOf (y # ys) x =
     (if y = x then 0
      else (let i = indexOf ys x in if i = - 1 then - 1 else i + 1))"

definition getLastSeenBlockNumber :: "'a event_scheme list \<Rightarrow> nat" where
  "getLastSeenBlockNumber eventArray =
     (if length eventArray = 0 then 0
      else blockNumber (eventArray ! (length eventArray - 1)))"

section \<open>checkForNewSponsors\<close>

text \<open>
  Each check-method takes the list that the event client returns at this invocation (the
  full history of the category) and returns the monitor after the invocation together
  with the entries it logged, in order.
\<close>

definition newSponsorEvents :: "ContractMonitor \<Rightarrow> NewSponsorEvent list \<Rightarrow> NewSponsorEvent list" where
  "newSponsorEvents this latestNewSponsorEvents =
     filter (\<lambda>event. blockNumber event > lastNewSponsorBlockNumber this) latestNewSponsorEvents"

definition newSponsorMrkdwn :: "FormattingUtils \<Rightarrow> ContractMonitor \<Rightarrow> NewSponsorEvent \<Rightarrow> string" where
  "newSponsorMrkdwn U this event =
     (let isLiquidatorBot = indexOf (monitoredLiquidators this) (NewSponsorEvent.sponsor event);
          isDisputerBot = indexOf (monitoredDisputers this) (NewSponsorEvent.sponsor event);
          isMonitoredBot = (isLiquidatorBot \<noteq> - 1 \<or> isDisputerBot \<noteq> - 1)
      in createEtherscanLinkMarkdown U (NewSponsorEvent.sponsor event) (networkId (empProps this))
         @ (if isMonitoredBot then '' (Monitored liquidator or disputer bot)'' else [])
         @ '' created ''
         @ formatDecimalString this (tokenAmount event)
         @ '' ''
         @ EmpProps.syntheticCurrencySymbol (empProps this)
         @ '' backed by ''
         @ formatDecimalString this (collateralAmount event)
         @ '' ''
         @ collateralCurrencySymbol (empProps this)
         @ ''. tx: ''
         @ createEtherscanLinkMarkdown U (transactionHash event) (networkId (empProps this)))"

definition newSponsorAlert :: "FormattingUtils \<Rightarrow> ContractMonitor \<Rightarrow> NewSponsorEvent \<Rightarrow> logEntry" where
  "newSponsorAlert U this event =
     \<lparr> level = Info, at = ''ContractMonitor'',
       message = ''New Sponsor Alert '' @ [CHR 0xF0, CHR 0x9F, CHR 0x90, CHR 0xA3] @ ''!'',
       details = [(''mrkdwn'', Text (newSponsorMrkdwn U this event))] \<rparr>"

definition checkForNewSponsors ::
  "FormattingUtils \<Rightarrow> ContractMonitor \<Rightarrow> NewSponsorEvent list \<Rightarrow> ContractMonitor \<times> logEntry list" where
  "checkForNewSponsors U this latestNewSponsorEvents =
     (this\<lparr>lastNewSponsorBlockNumber := getLastSeenBlockNumber latestNewSponsorEvents\<rparr>,
      \<lparr> level = Debug, at = ''ContractMonitor'',
        message = ''Checking for new sponsor events'',
        details = [(''lastNewSponsorBlockNumber'', Number (lastNewSponsorBlockNumber this))] \<rparr>
      # map (newSponsorAlert U this) (newSponsorEvents this latestNewSponsorEvents))"

section \<open>checkForNewLiquidations\<close>

definition newLiquidationEvents :: "ContractMonitor \<Rightarrow> LiquidationEvent list \<Rightarrow> LiquidationEvent list" where
  "newLiquidationEvents this latestLiquidationEvents =
     filter (\<lambda>event. blockNumber event > lastLiquidationBlockNumber this) latestLiquidationEvents"

text \<open>
  The message of a liquidation alert. The expression applies \<open>formatDecimalString\<close> to
  the price whether or not the price was found, so on an absent price its evaluation throws
  the formatter's \<open>TypeError\<close> and there is no message.
\<close>

definition liquidationMrkdwn ::
  "FormattingUtils \<Rightarrow> ContractMonitor \<Rightarrow> LiquidationEvent \<Rightarrow> string \<Rightarrow> string
     \<Rightarrow> int option \<Rightarrow> int \<Rightarrow> error + string" where
  "liquidationMrkdwn U this event collateralizationString maxPriceToBeDisputableString
       price crRequirementString =
     (case price of
        None \<Rightarrow> Inl TypeError
      | Some tokenPrice \<Rightarrow>
          Inr (createEtherscanLinkMarkdown U (LiquidationEvent.liquidator event)
                 (networkId (empProps this))
               @ (if indexOf (monitoredLiquidators this) (LiquidationEvent.liquidator event) \<noteq> - 1
                  then '' (Monitored liquidator bot)'' else [])
               @ '' initiated liquidation for ''
               @ formatDecimalString this (lockedCollateral event)
               @ '' (liquidated collateral = ''
               @ formatDecimalString this (liquidatedCollateral event)
               @ '') ''
               @ collateralCurrencySymbol (empProps this)
               @ '' of sponsor ''
               @ createEtherscanLinkMarkdown U (LiquidationEvent.sponsor event)
                   (networkId (empProps this))
               @ '' collateral backing ''
               @ formatDecimalString this (tokensOutstanding event)
               @ '' ''
               @ jsString (ContractMonitor.syntheticCurrencySymbol this)
               @ '' tokens. Sponsor collateralization ('' @ [CHR 0x27]
               @ ''liquidatedCollateral / tokensOutsanding'' @ [CHR 0x27] @ '') was ''
               @ collateralizationString
               @ ''%, using ''
               @ formatDecimalString this tokenPrice
               @ '' as the estimated price at liquidation time. With a collateralization requirement of ''
               @ formatDecimalString this crRequirementString
               @ ''%, this liquidation would be disputable at a price below ''
               @ maxPriceToBeDisputableString
               @ ''. tx: ''
               @ createEtherscanLinkMarkdown U (transactionHash event)
                   (networkId (empProps this))))"

definition liquidationAlert :: "string \<Rightarrow> logEntry" where
  "liquidationAlert mrkdwn =
     \<lparr> level = Info, at = ''ContractMonitor'',
       message = ''Liquidation Alert ''
         @ [CHR 0xF0, CHR 0x9F, CHR 0xA7, CHR 0x99, CHR 0xE2, CHR 0x80, CHR 0x8D,
            CHR 0xE2, CHR 0x99, CHR 0x82, CHR 0xEF, CHR 0xB8, CHR 0x8F] @ ''!'',
       details = [(''mrkdwn'', Text mrkdwn)] \<rparr>"

definition priceMissWarning :: "int option \<Rightarrow> nat \<Rightarrow> logEntry" where
  "priceMissWarning price liquidationTime =
     \<lparr> level = Warn, at = ''ContractMonitor'',
       message = ''Could not get historical price for liquidation'',
       details = [(''price'', BigNumber price), (''liquidationTime'', Decimal liquidationTime)] \<rparr>"

text \<open>
  The end of an iteration, common to both branches of \<open>if (price)\<close>: the message is
  built and logged through \<open>logger.info\<close>. \<open>logged\<close> holds what the iteration has
  logged before; a throw while the message is built leaves only that.
\<close>

definition logLiquidationAlert ::
  "FormattingUtils \<Rightarrow> ContractMonitor \<Rightarrow> LiquidationEvent \<Rightarrow> logEntry list \<Rightarrow> string
     \<Rightarrow> string \<Rightarrow> int option \<Rightarrow> int \<Rightarrow> logEntry list \<times> error option" where
  "logLiquidationAlert U this event logged collateralizationString
       maxPriceToBeDisputableString price crRequirementString =
     (case liquidationMrkdwn U this event collateralizationString
             maxPriceToBeDisputableString price crRequirementString of
        Inl e \<Rightarrow> (logged, Some e)
      | Inr mrkdwn \<Rightarrow> (logged @ [liquidationAlert mrkdwn], None))"

text \<open>
  One iteration of the loop over the new liquidation events: the entries it logs and the
  error it throws, if any. It throws when a contract read rejects, when a division of the
  derived metrics has a zero divisor, and when the message is built on an absent price,
  after the warn-level record of that branch has been logged.
\<close>

definition liquidationIteration ::
  "FormattingUtils \<Rightarrow> ContractMonitor \<Rightarrow> LiquidationEvent \<Rightarrow> logEntry list \<times> error option" where
  "liquidationIteration U this event =
     (case liquidations (empContract this) (LiquidationEvent.sponsor event) (liquidationId event) of
        Inl e \<Rightarrow> ([], Some e)
      | Inr liquidationTime \<Rightarrow>
         (let price = getHistoricalPrice (priceFeed this) liquidationTime
          in case collateralRequirement (empContract this) of
               Inl e \<Rightarrow> ([], Some e)
             | Inr crRequirement \<Rightarrow>
                (let crRequirementString = BN_muln crRequirement 100
                 in case price of
                      Some tokenPrice \<Rightarrow>
                        (case calculatePositionCRPercent (liquidatedCollateral event)
                                (tokensOutstanding event) tokenPrice of
                           Inl e \<Rightarrow> ([], Some e)
                         | Inr cr \<Rightarrow>
                            (case calculateDisputablePrice crRequirement
                                    (liquidatedCollateral event) (tokensOutstanding event) of
                               Inl e \<Rightarrow> ([], Some e)
                             | Inr maxPrice \<Rightarrow>
                                 logLiquidationAlert U this event []
                                   (formatDecimalString this cr)
                                   (formatDecimalString this maxPrice)
                                   price crRequirementString))
                    | None \<Rightarrow>
                        logLiquidationAlert U this event
                          [priceMissWarning price liquidationTime]
                          ''[Invalid]'' ''[Invalid]'' price crRequirementString)))"

text \<open>
  The loop: the entries logged until it ends or an iteration throws, and the error thrown
  if one does. No iteration runs after a throw.
\<close>

fun liquidationLoop ::
  "FormattingUtils \<Rightarrow> ContractMonitor \<Rightarrow> LiquidationEvent list \<Rightarrow> logEntry list \<times> error option" where
  "liquidationLoop U this [] = ([], None)"
| "liquidationLoop U this (event # events) =
     (case liquidationIteration U this event of
        (entries, Some e) \<Rightarrow> (entries, Some e)
      | (entries, None) \<Rightarrow>
          (case liquidationLoop U this events of
             (rest, thrown) \<Rightarrow> (entries @ rest, thrown)))"

text \<open>
  The method returns the monitor after the invocation, the entries logged and the error
  it threw, if any. The watermark is assigned after the loop, so a throw leaves the
  monitor as it was.
\<close>

definition checkForNewLiquidations ::
  "FormattingUtils \<Rightarrow> ContractMonitor \<Rightarrow> LiquidationEvent list
     \<Rightarrow> ContractMonitor \<times> logEntry list \<times> error option" where
  "checkForNewLiquidations U this latestLiquidationEvents =
     (let debugEntry =
            \<lparr> level = Debug, at = ''ContractMonitor'',
              message = ''Checking for new liquidation events'',
              details = [(''lastLiquidationBlockNumber'',
                          Number (lastLiquidationBlockNumber this))] \<rparr>
      in case liquidationLoop U this (newLiquidationEvents this latestLiquidationEvents) of
           (entries, Some e) \<Rightarrow> (this, debugEntry # entries, Some e)
         | (entries, None) \<Rightarrow>
             (this\<lparr>lastLiquidationBlockNumber := getLastSeenBlockNumber latestLiquidationEvents\<rparr>,
              debugEntry # entries, None))"

section \<open>checkForNewDisputeEvents\<close>

definition newDisputeEvents :: "ContractMonitor \<Rightarrow> DisputeEvent list \<Rightarrow> DisputeEvent list" where
  "newDisputeEvents this latestDisputeEvents =
     filter (\<lambda>event. blockNumber event > lastDisputeBlockNumber this) latestDisputeEvents"

definition disputeMrkdwn :: "FormattingUtils \<Rightarrow> ContractMonitor \<Rightarrow> DisputeEvent \<Rightarrow> string" where
  "disputeMrkdwn U this event =
     createEtherscanLinkMarkdown U (DisputeEvent.disputer event) (networkId (empProps this))
     @ (if indexOf (monitoredDisputers this) (DisputeEvent.disputer event) \<noteq> - 1
        then '' (Monitored dispute bot)'' else [])
     @ '' initiated dispute against liquidator ''
     @ createEtherscanLinkMarkdown U (DisputeEvent.liquidator event) (networkId (empProps this))
     @ (if indexOf (monitoredLiquidators this) (DisputeEvent.liquidator event) \<noteq> - 1
        then '' (Monitored liquidator bot)'' else [])
     @ '' with a dispute bond of ''
     @ formatDecimalString this (disputeBondAmount event)
     @ '' ''
     @ collateralCurrencySymbol (empProps this)
     @ ''. tx: ''
     @ createEtherscanLinkMarkdown U (transactionHash event) (networkId (empProps this))"

definition disputeAlert :: "FormattingUtils \<Rightarrow> ContractMonitor \<Rightarrow> DisputeEvent \<Rightarrow> logEntry" where
  "disputeAlert U this event =
     \<lparr> level = Info, at = ''ContractMonitor'',
       message = ''Dispute Alert '' @ [CHR 0xF0, CHR 0x9F, CHR 0x91, CHR 0xBB] @ ''!'',
       details = [(''mrkdwn'', Text (disputeMrkdwn U this event))] \<rparr>"

definition checkForNewDisputeEvents ::
  "FormattingUtils \<Rightarrow> ContractMonitor \<Rightarrow> DisputeEvent list \<Rightarrow> ContractMonitor \<times> logEntry list" where
  "checkForNewDisputeEvents U this latestDisputeEvents =
     (this\<lparr>lastDisputeBlockNumber := getLastSeenBlockNumber latestDisputeEvents\<rparr>,
      \<lparr> level = Debug, at = ''ContractMonitor'',
        message = ''Checking for new dispute events'',
        details = [(''lastDisputeBlockNumber'', Number (lastDisputeBlockNumber this))] \<rparr>
      # map (disputeAlert U this) (newDisputeEvents this latestDisputeEvents))"

section \<open>checkForNewDisputeSettlementEvents\<close>

definition newDisputeSettlementEvents ::
  "ContractMonitor \<Rightarrow> DisputeSettlementEvent list \<Rightarrow> DisputeSettlementEvent list" where
  "newDisputeSettlementEvents this latestDisputeSettlementEvents =
     filter (\<lambda>event. blockNumber event > lastDisputeSettlementBlockNumber this)
       latestDisputeSettlementEvents"

definition disputeSettlementMrkdwn ::
  "FormattingUtils \<Rightarrow> ContractMonitor \<Rightarrow> DisputeSettlementEvent \<Rightarrow> string" where
  "disputeSettlementMrkdwn U this event =
     ''Dispute between liquidator ''
     @ createEtherscanLinkMarkdown U (DisputeSettlementEvent.liquidator event)
         (networkId (empProps this))
     @ (if indexOf (monitoredLiquidators this) (DisputeSettlementEvent.liquidator event) \<noteq> - 1
        then ''(Monitored liquidator bot)'' else [])
     @ '' and disputer ''
     @ createEtherscanLinkMarkdown U (DisputeSettlementEvent.disputer event)
         (networkId (empProps this))
     @ (if indexOf (monitoredDisputers this) (DisputeSettlementEvent.disputer event) \<noteq> - 1
        then ''(Monitored dispute bot)'' else [])
     @ '' has been resolved as ''
     @ (if disputeSucceeded event = True then ''success'' else ''failed'')
     @ ''. tx: ''
     @ createEtherscanLinkMarkdown U (transactionHash event) (networkId (empProps this))"

definition disputeSettlementAlert ::
  "FormattingUtils \<Rightarrow> ContractMonitor \<Rightarrow> DisputeSettlementEvent \<Rightarrow> logEntry" where
  "disputeSettlementAlert U this event =
     \<lparr> level = Info, at = ''ContractMonitor'',
       message = ''Dispute Settlement Alert ''
         @ [CHR 0xF0, CHR 0x9F, CHR 0x91, CHR 0xAE, CHR 0xE2, CHR 0x80, CHR 0x8D,
            CHR 0xE2, CHR 0x99, CHR 0x82, CHR 0xEF, CHR 0xB8, CHR 0x8F] @ ''!'',
       details = [(''mrkdwn'', Text (disputeSettlementMrkdwn U this event))] \<rparr>"

definition checkForNewDisputeSettlementEvents ::
  "FormattingUtils \<Rightarrow> ContractMonitor \<Rightarrow> DisputeSettlementEvent list
     \<Rightarrow> ContractMonitor \<times> logEntry list" where
  "checkForNewDisputeSettlementEvents U this latestDisputeSettlementEvents =
     (this\<lparr>lastDisputeSettlementBlockNumber :=
              getLastSeenBlockNumber latestDisputeSettlementEvents\<rparr>,
      \<lparr> level = Debug, at = ''ContractMonitor'',
        message = ''Checking for new dispute settlement events'',
        details = [(''lastDisputeSettlementBlockNumber'',
                    Number (lastDisputeSettlementBlockNumber this))] \<rparr>
      # map (disputeSettlementAlert U this)
          (newDisputeSettlementEvents this latestDisputeSettlementEvents))"

section \<open>Repeated invocations\<close>

text \<open>
  The monitor after invoking one check-method once per fetch result of a list, in order.
  The caller keeps the same object whether or not an invocation threw.
\<close>

definition sponsorsAfter ::
  "FormattingUtils \<Rightarrow> ContractMonitor \<Rightarrow> NewSponsorEvent list list \<Rightarrow> ContractMonitor" where
  "sponsorsAfter U this fetches = foldl (\<lambda>m f. fst (checkForNewSponsors U m f)) this fetches"

definition liquidationsAfter ::
  "FormattingUtils \<Rightarrow> ContractMonitor \<Rightarrow> LiquidationEvent list list \<Rightarrow> ContractMonitor" where
  "liquidationsAfter U this fetches =
     foldl (\<lambda>m f. fst (checkForNewLiquidations U m f)) this fetches"

definition disputesAfter ::
  "FormattingUtils \<Rightarrow> ContractMonitor \<Rightarrow> DisputeEvent list list \<Rightarrow> ContractMonitor" where
  "disputesAfter U this fetches = foldl (\<lambda>m f. fst (checkForNewDisputeEvents U m f)) this fetches"

definition disputeSettlementsAfter ::
  "FormattingUtils \<Rightarrow> ContractMonitor \<Rightarrow> DisputeSettlementEvent list list \<Rightarrow> ContractMonitor" where
  "disputeSettlementsAfter U this fetches =
     foldl (\<lambda>m f. fst (checkForNewDisputeSettlementEvents U m f)) this fetches"

text \<open>Every invocation of \<open>checkForNewLiquidations\<close> over the fetch results completes (none throws).\<close>

fun liquidationsComplete ::
  "FormattingUtils \<Rightarrow> ContractMonitor \<Rightarrow> LiquidationEvent list list \<Rightarrow> bool" where
  "liquidationsComplete U this [] = True"
| "liquidationsComplete U this (f # fetches) =
     (case checkForNewLiquidations U this f of
        (this', entries, thrown) \<Rightarrow> thrown = None \<and> liquidationsComplete U this' fetches)"

text \<open>
  Block numbers are non-decreasing within each fetched list, and the last-seen block
  number of successive fetch results (\<open>0\<close> for an empty list, as
  \<open>getLastSeenBlockNumber\<close> has it) is non-decreasing.
\<close>

definition nonDecreasingFetches :: "'a event_scheme list list \<Rightarrow> bool" where
  "nonDecreasingFetches fetches \<longleftrightarrow>
     list_all (\<lambda>f. sorted (map blockNumber f)) fetches
     \<and> sorted (map getLastSeenBlockNumber fetches)"

text \<open>
  A new liquidation event on which an iteration divides by zero: both contract reads
  resolve, the price is present, and the outstanding tokens, the price or the collateral
  requirement is zero.
\<close>

definition dividesByZero :: "ContractMonitor \<Rightarrow> LiquidationEvent \<Rightarrow> bool" where
  "dividesByZero this event =
     (case liquidations (empContract this) (LiquidationEvent.sponsor event) (liquidationId event) of
        Inl e \<Rightarrow> False
      | Inr liquidationTime \<Rightarrow>
         (case collateralRequirement (empContract this) of
            Inl e \<Rightarrow> False
          | Inr crRequirement \<Rightarrow>
             (case getHistoricalPrice (priceFeed this) liquidationTime of
                None \<Rightarrow> False
              | Some tokenPrice \<Rightarrow>
                  tokensOutstanding event = 0 \<or> tokenPrice = 0 \<or> crRequirement = 0)))"

text \<open>
  The entries one iteration of the liquidation loop logs, whether the iteration completes
  (it throws nothing), and the alerts among the entries of an invocation: the entries
  logged through \<open>logger.info\<close>.
\<close>

definition iterationEntries ::
  "FormattingUtils \<Rightarrow> ContractMonitor \<Rightarrow> LiquidationEvent \<Rightarrow> logEntry list" where
  "iterationEntries U this event = fst (liquidationIteration U this event)"

definition iterationCompletes ::
  "FormattingUtils \<Rightarrow> ContractMonitor \<Rightarrow> LiquidationEvent \<Rightarrow> bool" where
  "iterationCompletes U this event \<longleftrightarrow> snd (liquidationIteration U this event) = None"

definition alerts :: "logEntry list \<Rightarrow> logEntry list" where
  "alerts entries = filter (\<lambda>entry. level entry = Info) entries"

text \<open>The level, origin and title of a logged entry, without its remaining keys.\<close>

definition heading :: "logEntry \<Rightarrow> level \<times> string \<times> string" where
  "heading entry = (level entry, at entry, message entry)"

section \<open>A concrete monitor\<close>

text \<open>
  Collaborators and events for evaluating the methods: the configuration of the
  constructor's documentation, a price feed that knows the price at time 100, answers a
  zero price at time 200 and has no price otherwise, and a contract whose reads resolve,
  whose liquidation number \<open>n\<close> happened at time \<open>n\<close>, and whose collateral
  requirement is 1.2.
\<close>

definition exampleUtils :: FormattingUtils where
  "exampleUtils =
     \<lparr> createFormatFunction =
         (\<lambda>numDisplayedDecimals minDisplayedPrecision n. if n = 0 then ''0'' else ''amount''),
       createEtherscanLinkMarkdown = (\<lambda>hex networkId. ''<'' @ hex @ ''>'') \<rparr>"

definition exampleProps :: EmpProps where
  "exampleProps =
     \<lparr> collateralCurrencySymbol = ''DAI'', syntheticCurrencySymbol = ''ETHBTC'',
       priceIdentifier = ''ETH/BTC'', networkId = 1 \<rparr>"

definition exampleConfig :: contractMonitorConfigObject where
  "exampleConfig =
     \<lparr> contractMonitorConfigObject.monitoredLiquidators = [''0x1234''],
       contractMonitorConfigObject.monitoredDisputers = [''0x5678''] \<rparr>"

definition exampleFeed :: PriceFeed where
  "exampleFeed =
     \<lparr> getHistoricalPrice =
         (\<lambda>time. if time = 100 then Some (10 ^ 18) else if time = 200 then Some 0 else None) \<rparr>"

definition exampleClient :: expiringMultiPartyEventClient where
  "exampleClient =
     \<lparr> emp = \<lparr> liquidations = (\<lambda>sponsor liquidationId. Inr liquidationId),
               collateralRequirement = Inr (12 * 10 ^ 17) \<rparr> \<rparr>"

definition exampleMonitor :: ContractMonitor where
  "exampleMonitor = constructor exampleUtils exampleClient exampleConfig exampleFeed exampleProps"

definition sponsorAt :: "nat \<Rightarrow> NewSponsorEvent" where
  "sponsorAt n =
     \<lparr> transactionHash = ''0xaa'', blockNumber = n, NewSponsorEvent.sponsor = ''0x9abc'',
       tokenAmount = 1000 * 10 ^ 18, collateralAmount = 2000 * 10 ^ 18 \<rparr>"

definition liquidationAt :: "nat \<Rightarrow> nat \<Rightarrow> LiquidationEvent" where
  "liquidationAt n time =
     \<lparr> transactionHash = ''0xbb'', blockNumber = n, LiquidationEvent.sponsor = ''0x9abc'',
       LiquidationEvent.liquidator = ''0x1234'', liquidationId = time,
       lockedCollateral = 2000 * 10 ^ 18, liquidatedCollateral = 1200 * 10 ^ 18,
       tokensOutstanding = 1000 * 10 ^ 18 \<rparr>"

definition disputeAt :: "nat \<Rightarrow> DisputeEvent" where
  "disputeAt n =
     \<lparr> transactionHash = ''0xcc'', blockNumber = n, DisputeEvent.disputer = ''0x5678'',
       DisputeEvent.liquidator = ''0x1234'', disputeBondAmount = 10 * 10 ^ 18 \<rparr>"

definition disputeSettlementAt :: "nat \<Rightarrow> DisputeSettlementEvent" where
  "disputeSettlementAt n =
     \<lparr> transactionHash = ''0xdd'', blockNumber = n, DisputeSettlementEvent.liquidator = ''0x1234'',
       DisputeSettlementEvent.disputer = ''0x5678'', disputeSucceeded = True \<rparr>"

section \<open>Auxiliary facts\<close>

subsection \<open>Arithmetic\<close>

lemma quotient_nonneg: "0 \<le> a \<Longrightarrow> 0 < b \<Longrightarrow> quotient a b = a div b"
  by (cases "a = 0") (simp_all add: quotient_def)

lemma BN_div_quotient: "b \<noteq> 0 \<Longrightarrow> BN_div a b = Inr (quotient a b)"
  by (simp add: BN_div_def quotient_def)

lemma BN_div_nonneg: "0 \<le> a \<Longrightarrow> 0 < b \<Longrightarrow> BN_div a b = Inr (a div b)"
  using quotient_nonneg [of a b] by (simp add: BN_div_quotient)

subsection \<open>Membership and watermarks\<close>

lemma indexOf_ge: "- 1 \<le> indexOf xs x"
  by (induction xs) (auto simp: Let_def)

lemma indexOf_member: "indexOf xs x \<noteq> - 1 \<longleftrightarrow> x \<in> set xs"
proof (induction xs)
  case Nil
  show ?case by simp
next
  case (Cons y ys)
  have "indexOf ys x + 1 \<noteq> - 1"
    using indexOf_ge [of ys x] by arith
  with Cons show ?case by (auto simp: Let_def)
qed

lemma getLastSeenBlockNumber_Nil: "getLastSeenBlockNumber [] = 0"
  by (simp add: getLastSeenBlockNumber_def)

lemma getLastSeenBlockNumber_last:
  "f \<noteq> [] \<Longrightarrow> getLastSeenBlockNumber f = blockNumber (last f)"
  by (simp add: getLastSeenBlockNumber_def last_conv_nth)

lemma sorted_le_lastSeen:
  assumes "sorted (map blockNumber f)" and "e \<in> set f"
  shows "blockNumber e \<le> getLastSeenBlockNumber f"
proof -
  from assms(2) have ne: "f \<noteq> []" by auto
  from assms(2) obtain i where i: "i < length f" and e: "f ! i = e"
    by (auto simp: in_set_conv_nth)
  have "map blockNumber f ! i \<le> map blockNumber f ! (length f - 1)"
    using assms(1) i by (intro sorted_nth_mono) auto
  with i ne e show ?thesis
    by (simp add: getLastSeenBlockNumber_def)
qed

lemma nonDecreasingFetches_sorted:
  "nonDecreasingFetches fs \<Longrightarrow> k < length fs \<Longrightarrow> sorted (map blockNumber (fs ! k))"
  by (simp add: nonDecreasingFetches_def list_all_length)

lemma nonDecreasingFetches_lastSeen_mono:
  assumes "nonDecreasingFetches fs" and "i \<le> j" and "j < length fs"
  shows "getLastSeenBlockNumber (fs ! i) \<le> getLastSeenBlockNumber (fs ! j)"
proof -
  have "map getLastSeenBlockNumber fs ! i \<le> map getLastSeenBlockNumber fs ! j"
    using assms by (intro sorted_nth_mono) (auto simp: nonDecreasingFetches_def)
  with assms show ?thesis by simp
qed

lemma nonDecreasingFetches_earlier_le:
  assumes nd: "nonDecreasingFetches fs" and ij: "i \<le> j" and j: "j < length fs"
    and e: "e \<in> set (fs ! i)"
  shows "blockNumber e \<le> getLastSeenBlockNumber (fs ! j)"
proof -
  have "blockNumber e \<le> getLastSeenBlockNumber (fs ! i)"
    using nonDecreasingFetches_sorted [OF nd] ij j e by (intro sorted_le_lastSeen) auto
  also have "\<dots> \<le> getLastSeenBlockNumber (fs ! j)"
    by (rule nonDecreasingFetches_lastSeen_mono [OF nd ij j])
  finally show ?thesis .
qed

lemma lastSeen_is_Max:
  assumes nd: "nonDecreasingFetches fs" and ne: "fs \<noteq> []"
  shows "getLastSeenBlockNumber (last fs) = Max (insert 0 (blockNumber ` set (concat fs)))"
proof (rule sym, rule Max_eqI)
  show "finite (insert 0 (blockNumber ` set (concat fs)))" by simp
next
  fix y assume "y \<in> insert 0 (blockNumber ` set (concat fs))"
  then consider "y = 0" | e f where "f \<in> set fs" "e \<in> set f" "y = blockNumber e" by auto
  then show "y \<le> getLastSeenBlockNumber (last fs)"
  proof cases
    case 1 then show ?thesis by simp
  next
    case 2
    from 2(1) obtain i where i: "i < length fs" "fs ! i = f" by (auto simp: in_set_conv_nth)
    have "blockNumber e \<le> getLastSeenBlockNumber (fs ! (length fs - 1))"
      using i 2(2) ne by (intro nonDecreasingFetches_earlier_le [OF nd, of i]) auto
    with 2(3) ne show ?thesis by (simp add: last_conv_nth)
  qed
next
  show "getLastSeenBlockNumber (last fs) \<in> insert 0 (blockNumber ` set (concat fs))"
  proof (cases "last fs = []")
    case True then show ?thesis by (simp add: getLastSeenBlockNumber_Nil)
  next
    case False
    have "last fs \<in> set fs" using ne by (rule last_in_set)
    moreover have "last (last fs) \<in> set (last fs)" using False by (rule last_in_set)
    ultimately have "last (last fs) \<in> set (concat fs)" by auto
    with False show ?thesis by (simp add: getLastSeenBlockNumber_last)
  qed
qed

lemma no_new_events_on_repeat:
  assumes "sorted (map blockNumber f)"
  shows "filter (\<lambda>e. blockNumber e > getLastSeenBlockNumber f) f = []"
  using sorted_le_lastSeen [OF assms] by (auto simp: filter_empty_conv not_less)

lemma lastSeen_chain_mono:
  assumes nd: "nonDecreasingFetches fs" and k: "0 < k" "k < length fs"
  shows "getLastSeenBlockNumber (fs ! (k - 1)) \<le> getLastSeenBlockNumber (fs ! k)"
  using k by (intro nonDecreasingFetches_lastSeen_mono [OF nd]) auto

subsection \<open>Sponsor invocations\<close>

lemma checkForNewSponsors_watermark:
  "lastNewSponsorBlockNumber (fst (checkForNewSponsors U m f)) = getLastSeenBlockNumber f"
  by (simp add: checkForNewSponsors_def)

lemma sponsorsAfter_snoc:
  "sponsorsAfter U m (fs @ [f]) = fst (checkForNewSponsors U (sponsorsAfter U m fs) f)"
  by (simp add: sponsorsAfter_def)

lemma sponsorsAfter_watermark:
  "fs \<noteq> [] \<Longrightarrow>
     lastNewSponsorBlockNumber (sponsorsAfter U m fs) = getLastSeenBlockNumber (last fs)"
  by (cases fs rule: rev_cases) (simp_all add: sponsorsAfter_snoc checkForNewSponsors_watermark)

lemma sponsorsAfter_take_watermark:
  assumes "0 < k" and "k \<le> length fs"
  shows "lastNewSponsorBlockNumber (sponsorsAfter U m (take k fs))
         = getLastSeenBlockNumber (fs ! (k - 1))"
proof -
  from assms obtain n where n: "k = Suc n" "n < length fs" by (cases k) auto
  then have "take k fs = take n fs @ [fs ! n]" by (simp add: take_Suc_conv_app_nth)
  with n show ?thesis by (simp add: sponsorsAfter_snoc checkForNewSponsors_watermark)
qed

subsection \<open>Liquidation invocations\<close>

lemma calculatePositionCRPercent_cases:
  "calculatePositionCRPercent c t p =
     (if t = 0 \<or> p = 0 then Inl (Error ''Assertion failed'')
      else Inr (quotient (c * toWei1 * toWei1) (t * p) * 100))"
  by (simp add: calculatePositionCRPercent_def BN_div_def BN_mul_def BN_muln_def quotient_def)

lemma calculateDisputablePrice_cases:
  "calculateDisputablePrice cr c t =
     (if t = 0 \<or> cr = 0 then Inl (Error ''Assertion failed'')
      else Inr (quotient (quotient (c * toWei1) t * toWei1) cr))"
  by (simp add: calculateDisputablePrice_def BN_div_def BN_mul_def quotient_def)

lemma liquidationIteration_dividesByZero:
  "dividesByZero m e \<Longrightarrow> liquidationIteration U m e = ([], Some (Error ''Assertion failed''))"
  by (auto simp: liquidationIteration_def dividesByZero_def Let_def
      calculatePositionCRPercent_cases calculateDisputablePrice_cases
      split: sum.splits option.splits)

lemma liquidationIteration_price_miss:
  assumes "liquidations (empContract m) (LiquidationEvent.sponsor e) (liquidationId e) = Inr time"
    and "collateralRequirement (empContract m) = Inr cr"
    and "getHistoricalPrice (priceFeed m) time = None"
  shows "liquidationIteration U m e = ([priceMissWarning None time], Some TypeError)"
  using assms
  by (simp add: liquidationIteration_def logLiquidationAlert_def liquidationMrkdwn_def Let_def)

lemma iterationCompletes_priced:
  assumes "iterationCompletes U m e"
  obtains time cr p mrkdwn where
    "liquidations (empContract m) (LiquidationEvent.sponsor e) (liquidationId e) = Inr time"
    "collateralRequirement (empContract m) = Inr cr"
    "getHistoricalPrice (priceFeed m) time = Some p"
    "liquidationIteration U m e = ([liquidationAlert mrkdwn], None)"
  using assms
  by (auto simp: iterationCompletes_def liquidationIteration_def logLiquidationAlert_def
      liquidationMrkdwn_def Let_def split: sum.splits option.splits)

lemma liquidationIteration_entries:
  "iterationCompletes U m e \<Longrightarrow> liquidationIteration U m e = (iterationEntries U m e, None)"
  by (simp add: iterationCompletes_def iterationEntries_def prod_eq_iff)

lemma liquidationIteration_thrown:
  "snd (liquidationIteration U m e) = Some err \<Longrightarrow>
     liquidationIteration U m e = (iterationEntries U m e, Some err)"
  by (simp add: iterationEntries_def prod_eq_iff)

lemma liquidationLoop_complete:
  "list_all (iterationCompletes U m) es \<Longrightarrow>
     liquidationLoop U m es = (concat (map (iterationEntries U m) es), None)"
  by (induction es) (simp_all add: liquidationIteration_entries)

lemma liquidationLoop_abort:
  "list_all (iterationCompletes U m) pre \<Longrightarrow> snd (liquidationIteration U m e) = Some err \<Longrightarrow>
     liquidationLoop U m (pre @ e # post)
       = (concat (map (iterationEntries U m) pre) @ iterationEntries U m e, Some err)"
proof (induction pre)
  case Nil
  then show ?case by (simp add: liquidationIteration_thrown)
next
  case (Cons x pre)
  then show ?case by (simp add: liquidationIteration_entries)
qed

lemma liquidationLoop_thrown:
  "snd (liquidationLoop U m es) = None \<longleftrightarrow> list_all (iterationCompletes U m) es"
proof (induction es)
  case Nil show ?case by simp
next
  case (Cons x es)
  show ?case
  proof (cases "iterationCompletes U m x")
    case True
    obtain a b where ab: "liquidationLoop U m es = (a, b)" by (cases "liquidationLoop U m es")
    with True Cons show ?thesis
      by (simp add: liquidationIteration_entries)
  next
    case False
    then obtain err where "snd (liquidationIteration U m x) = Some err"
      by (auto simp: iterationCompletes_def)
    with False show ?thesis by (simp add: liquidationIteration_thrown)
  qed
qed

lemma checkForNewLiquidations_complete:
  assumes "list_all (iterationCompletes U m) (newLiquidationEvents m f)"
  shows "checkForNewLiquidations U m f =
     (m\<lparr>lastLiquidationBlockNumber := getLastSeenBlockNumber f\<rparr>,
      \<lparr> level = Debug, at = ''ContractMonitor'',
        message = ''Checking for new liquidation events'',
        details = [(''lastLiquidationBlockNumber'', Number (lastLiquidationBlockNumber m))] \<rparr>
      # concat (map (iterationEntries U m) (newLiquidationEvents m f)), None)"
  by (simp add: checkForNewLiquidations_def liquidationLoop_complete [OF assms])

lemma checkForNewLiquidations_abort:
  assumes "newLiquidationEvents m f = pre @ e # post"
    and "list_all (iterationCompletes U m) pre"
    and "snd (liquidationIteration U m e) = Some err"
  shows "checkForNewLiquidations U m f =
     (m,
      \<lparr> level = Debug, at = ''ContractMonitor'',
        message = ''Checking for new liquidation events'',
        details = [(''lastLiquidationBlockNumber'', Number (lastLiquidationBlockNumber m))] \<rparr>
      # concat (map (iterationEntries U m) pre) @ iterationEntries U m e, Some err)"
  by (simp add: checkForNewLiquidations_def assms(1) liquidationLoop_abort [OF assms(2,3)])

lemma checkForNewLiquidations_thrown:
  "snd (snd (checkForNewLiquidations U m f)) = None
     \<longleftrightarrow> list_all (iterationCompletes U m) (newLiquidationEvents m f)"
proof -
  obtain a b where ab: "liquidationLoop U m (newLiquidationEvents m f) = (a, b)"
    by (cases "liquidationLoop U m (newLiquidationEvents m f)")
  with liquidationLoop_thrown [of U m "newLiquidationEvents m f"] show ?thesis
    by (cases b) (simp_all add: checkForNewLiquidations_def Let_def)
qed

lemma checkForNewLiquidations_watermark:
  "snd (snd (checkForNewLiquidations U m f)) = None \<Longrightarrow>
     lastLiquidationBlockNumber (fst (checkForNewLiquidations U m f)) = getLastSeenBlockNumber f"
proof -
  obtain a b where ab: "liquidationLoop U m (newLiquidationEvents m f) = (a, b)"
    by (cases "liquidationLoop U m (newLiquidationEvents m f)")
  assume "snd (snd (checkForNewLiquidations U m f)) = None"
  with ab show ?thesis
    by (cases b) (simp_all add: checkForNewLiquidations_def Let_def)
qed

lemma liquidationsAfter_snoc:
  "liquidationsAfter U m (fs @ [f]) = fst (checkForNewLiquidations U (liquidationsAfter U m fs) f)"
  by (simp add: liquidationsAfter_def)

lemma liquidationsComplete_Cons_after:
  "liquidationsComplete U m (f # fs) \<longleftrightarrow>
     snd (snd (checkForNewLiquidations U m f)) = None
     \<and> liquidationsComplete U (fst (checkForNewLiquidations U m f)) fs"
  by (cases "checkForNewLiquidations U m f") simp

lemma liquidationsAfter_Cons:
  "liquidationsAfter U m (f # fs) = liquidationsAfter U (fst (checkForNewLiquidations U m f)) fs"
  by (simp add: liquidationsAfter_def)

lemma liquidationsComplete_nth:
  "liquidationsComplete U m fs \<Longrightarrow> k < length fs \<Longrightarrow>
     snd (snd (checkForNewLiquidations U (liquidationsAfter U m (take k fs)) (fs ! k))) = None"
proof (induction fs arbitrary: m k)
  case Nil
  then show ?case by simp
next
  case (Cons f fs)
  from Cons.prems(1)
  have now: "snd (snd (checkForNewLiquidations U m f)) = None"
    and later: "liquidationsComplete U (fst (checkForNewLiquidations U m f)) fs"
    unfolding liquidationsComplete_Cons_after by simp_all
  show ?case
  proof (cases k)
    case 0
    with now show ?thesis by (simp add: liquidationsAfter_def)
  next
    case (Suc n)
    with Cons.prems(2) Cons.IH [OF later, of n] show ?thesis
      by (simp add: liquidationsAfter_Cons)
  qed
qed

lemma liquidationsAfter_take_watermark:
  assumes c: "liquidationsComplete U m fs" and "0 < k" and "k \<le> length fs"
  shows "lastLiquidationBlockNumber (liquidationsAfter U m (take k fs))
         = getLastSeenBlockNumber (fs ! (k - 1))"
proof -
  from assms obtain n where n: "k = Suc n" "n < length fs" by (cases k) auto
  then have "take k fs = take n fs @ [fs ! n]" by (simp add: take_Suc_conv_app_nth)
  with n liquidationsComplete_nth [OF c n(2)] show ?thesis
    by (simp add: liquidationsAfter_snoc checkForNewLiquidations_watermark)
qed

subsection \<open>Dispute invocations\<close>

lemma checkForNewDisputeEvents_watermark:
  "lastDisputeBlockNumber (fst (checkForNewDisputeEvents U m f)) = getLastSeenBlockNumber f"
  by (simp add: checkForNewDisputeEvents_def)

lemma disputesAfter_snoc:
  "disputesAfter U m (fs @ [f]) = fst (checkForNewDisputeEvents U (disputesAfter U m fs) f)"
  by (simp add: disputesAfter_def)

lemma disputesAfter_watermark:
  "fs \<noteq> [] \<Longrightarrow>
     lastDisputeBlockNumber (disputesAfter U m fs) = getLastSeenBlockNumber (last fs)"
  by (cases fs rule: rev_cases) (simp_all add: disputesAfter_snoc checkForNewDisputeEvents_watermark)

lemma disputesAfter_take_watermark:
  assumes "0 < k" and "k \<le> length fs"
  shows "lastDisputeBlockNumber (disputesAfter U m (take k fs))
         = getLastSeenBlockNumber (fs ! (k - 1))"
proof -
  from assms obtain n where n: "k = Suc n" "n < length fs" by (cases k) auto
  then have "take k fs = take n fs @ [fs ! n]" by (simp add: take_Suc_conv_app_nth)
  with n show ?thesis by (simp add: disputesAfter_snoc checkForNewDisputeEvents_watermark)
qed

subsection \<open>Dispute settlement invocations\<close>

lemma checkForNewDisputeSettlementEvents_watermark:
  "lastDisputeSettlementBlockNumber (fst (checkForNewDisputeSettlementEvents U m f)) = getLastSeenBlockNumber f"
  by (simp add: checkForNewDisputeSettlementEvents_def)

lemma disputeSettlementsAfter_snoc:
  "disputeSettlementsAfter U m (fs @ [f]) = fst (checkForNewDisputeSettlementEvents U (disputeSettlementsAfter U m fs) f)"
  by (simp add: disputeSettlementsAfter_def)

lemma disputeSettlementsAfter_watermark:
  "fs \<noteq> [] \<Longrightarrow>
     lastDisputeSettlementBlockNumber (disputeSettlementsAfter U m fs) = getLastSeenBlockNumber (last fs)"
  by (cases fs rule: rev_cases) (simp_all add: disputeSettlementsAfter_snoc checkForNewDisputeSettlementEvents_watermark)

lemma disputeSettlementsAfter_take_watermark:
  assumes "0 < k" and "k \<le> length fs"
  shows "lastDisputeSettlementBlockNumber (disputeSettlementsAfter U m (take k fs))
         = getLastSeenBlockNumber (fs ! (k - 1))"
proof -
  from assms obtain n where n: "k = Suc n" "n < length fs" by (cases k) auto
  then have "take k fs = take n fs @ [fs ! n]" by (simp add: take_Suc_conv_app_nth)
  with n show ?thesis by (simp add: disputeSettlementsAfter_snoc checkForNewDisputeSettlementEvents_watermark)
qed

subsection \<open>Liquidation invocations on the last and on an empty fetch\<close>

lemma liquidationsAfter_watermark_last:
  assumes c: "liquidationsComplete U m fs" and ne: "fs \<noteq> []"
  shows "lastLiquidationBlockNumber (liquidationsAfter U m fs) = getLastSeenBlockNumber (last fs)"
  using liquidationsAfter_take_watermark [OF c, of "length fs"] ne
  by (simp add: last_conv_nth)

lemma liquidationsComplete_Nil_fetch:
  "checkForNewLiquidations U m [] =
     (m\<lparr>lastLiquidationBlockNumber := 0\<rparr>,
      [\<lparr> level = Debug, at = ''ContractMonitor'',
         message = ''Checking for new liquidation events'',
         details = [(''lastLiquidationBlockNumber'', Number (lastLiquidationBlockNumber m))] \<rparr>],
      None)"
  by (simp add: checkForNewLiquidations_def newLiquidationEvents_def getLastSeenBlockNumber_Nil)

subsection \<open>New events and alerts of an invocation\<close>

lemma newSponsorEvents_after:
  "0 < j \<Longrightarrow> j < length fs \<Longrightarrow>
     newSponsorEvents (sponsorsAfter U m (take j fs)) (fs ! j)
       = filter (\<lambda>e. blockNumber e > getLastSeenBlockNumber (fs ! (j - 1))) (fs ! j)"
  by (simp add: newSponsorEvents_def sponsorsAfter_take_watermark)

lemma newDisputeEvents_after:
  "0 < j \<Longrightarrow> j < length fs \<Longrightarrow>
     newDisputeEvents (disputesAfter U m (take j fs)) (fs ! j)
       = filter (\<lambda>e. blockNumber e > getLastSeenBlockNumber (fs ! (j - 1))) (fs ! j)"
  by (simp add: newDisputeEvents_def disputesAfter_take_watermark)

lemma newDisputeSettlementEvents_after:
  "0 < j \<Longrightarrow> j < length fs \<Longrightarrow>
     newDisputeSettlementEvents (disputeSettlementsAfter U m (take j fs)) (fs ! j)
       = filter (\<lambda>e. blockNumber e > getLastSeenBlockNumber (fs ! (j - 1))) (fs ! j)"
  by (simp add: newDisputeSettlementEvents_def disputeSettlementsAfter_take_watermark)

lemma newLiquidationEvents_after:
  "liquidationsComplete U m fs \<Longrightarrow> 0 < j \<Longrightarrow> j < length fs \<Longrightarrow>
     newLiquidationEvents (liquidationsAfter U m (take j fs)) (fs ! j)
       = filter (\<lambda>e. blockNumber e > getLastSeenBlockNumber (fs ! (j - 1))) (fs ! j)"
  by (simp add: newLiquidationEvents_def liquidationsAfter_take_watermark)

lemma alerts_newSponsors:
  "alerts (snd (checkForNewSponsors U m f)) = map (newSponsorAlert U m) (newSponsorEvents m f)"
  by (simp add: alerts_def checkForNewSponsors_def newSponsorAlert_def filter_map o_def)

lemma alerts_newDisputes:
  "alerts (snd (checkForNewDisputeEvents U m f)) = map (disputeAlert U m) (newDisputeEvents m f)"
  by (simp add: alerts_def checkForNewDisputeEvents_def disputeAlert_def filter_map o_def)

lemma alerts_newDisputeSettlements:
  "alerts (snd (checkForNewDisputeSettlementEvents U m f))
     = map (disputeSettlementAlert U m) (newDisputeSettlementEvents m f)"
  by (simp add: alerts_def checkForNewDisputeSettlementEvents_def disputeSettlementAlert_def
      filter_map o_def)

lemma alerts_iterationEntries:
  "iterationCompletes U m e \<Longrightarrow> length (alerts (iterationEntries U m e)) = 1"
  by (erule iterationCompletes_priced)
    (simp add: iterationEntries_def alerts_def liquidationAlert_def)

lemma alerts_append: "alerts (xs @ ys) = alerts xs @ alerts ys"
  by (simp add: alerts_def)

lemma alerts_Nil: "alerts [] = []"
  by (simp add: alerts_def)

lemma alerts_iterationEntries_last:
  "iterationCompletes U m e \<Longrightarrow> alerts (iterationEntries U m e) = [last (iterationEntries U m e)]"
  by (erule iterationCompletes_priced)
    (simp add: iterationEntries_def alerts_def liquidationAlert_def)

lemma alerts_newLiquidations_events:
  assumes "snd (snd (checkForNewLiquidations U m f)) = None"
  shows "alerts (fst (snd (checkForNewLiquidations U m f)))
           = map (\<lambda>e. last (iterationEntries U m e)) (newLiquidationEvents m f)"
proof -
  have ok: "list_all (iterationCompletes U m) (newLiquidationEvents m f)"
    using assms by (simp add: checkForNewLiquidations_thrown)
  have "list_all (iterationCompletes U m) es \<Longrightarrow>
      alerts (concat (map (iterationEntries U m) es))
        = map (\<lambda>e. last (iterationEntries U m e)) es" for es
    by (induction es) (simp_all add: alerts_append alerts_iterationEntries_last alerts_Nil)
  with ok show ?thesis
    by (simp add: checkForNewLiquidations_complete [OF ok] alerts_def)
qed

lemma disjoint_new_events_general:
  assumes nd: "nonDecreasingFetches fs" and ij: "i < j" and j: "j < length fs"
    and ni: "set ni \<subseteq> set (fs ! i)"
    and nj: "nj = filter (\<lambda>e. blockNumber e > getLastSeenBlockNumber (fs ! (j - 1))) (fs ! j)"
  shows "set ni \<inter> set nj = {}"
proof -
  have "blockNumber e \<le> getLastSeenBlockNumber (fs ! (j - 1))" if "e \<in> set (fs ! i)" for e
    using ij j that by (intro nonDecreasingFetches_earlier_le [OF nd, of i]) auto
  with ni nj show ?thesis by fastforce
qed

lemma checkForNewLiquidations_nothing_new:
  "newLiquidationEvents m f = [] \<Longrightarrow> alerts (fst (snd (checkForNewLiquidations U m f))) = []"
  by (simp add: checkForNewLiquidations_def alerts_def)

subsection \<open>Unfolding the methods on concrete data\<close>

lemmas example_defs =
  exampleMonitor_def constructor_def exampleUtils_def exampleProps_def exampleConfig_def
  exampleFeed_def exampleClient_def sponsorAt_def liquidationAt_def disputeAt_def
  disputeSettlementAt_def

lemmas method_defs =
  nonDecreasingFetches_def getLastSeenBlockNumber_def
  checkForNewSponsors_def newSponsorEvents_def
  checkForNewDisputeEvents_def newDisputeEvents_def
  checkForNewDisputeSettlementEvents_def newDisputeSettlementEvents_def
  checkForNewLiquidations_def newLiquidationEvents_def liquidationIteration_def
  logLiquidationAlert_def liquidationMrkdwn_def
  calculatePositionCRPercent_def calculateDisputablePrice_def BN_div_def BN_mul_def
  BN_muln_def toWei1_def Let_def
  sponsorsAfter_def liquidationsAfter_def disputesAfter_def disputeSettlementsAfter_def

subsection \<open>Independence of the monitored addresses\<close>

lemma indexOf_absent: "indexOf xs x = - 1 \<longleftrightarrow> x \<notin> set xs"
  using indexOf_member [of xs x] by blast

lemma liquidationIteration_sets:
  "map heading (fst (liquidationIteration U (m\<lparr>monitoredLiquidators := L, monitoredDisputers := D\<rparr>) e))
     = map heading (fst (liquidationIteration U m e))
   \<and> snd (liquidationIteration U (m\<lparr>monitoredLiquidators := L, monitoredDisputers := D\<rparr>) e)
     = snd (liquidationIteration U m e)"
  by (simp add: liquidationIteration_def logLiquidationAlert_def liquidationMrkdwn_def Let_def
      heading_def liquidationAlert_def priceMissWarning_def split: sum.splits option.splits)

lemma liquidationLoop_sets:
  "map heading (fst (liquidationLoop U (m\<lparr>monitoredLiquidators := L, monitoredDisputers := D\<rparr>) es))
     = map heading (fst (liquidationLoop U m es))
   \<and> snd (liquidationLoop U (m\<lparr>monitoredLiquidators := L, monitoredDisputers := D\<rparr>) es)
     = snd (liquidationLoop U m es)"
proof (induction es)
  case Nil
  show ?case by simp
next
  case (Cons x es)
  let ?m' = "m\<lparr>monitoredLiquidators := L, monitoredDisputers := D\<rparr>"
  obtain a t where it: "liquidationIteration U m x = (a, t)"
    by (cases "liquidationIteration U m x")
  obtain a' t' where it': "liquidationIteration U ?m' x = (a', t')"
    by (cases "liquidationIteration U ?m' x")
  from liquidationIteration_sets [where U = U and m = m and L = L and D = D and e = x] it it'
  have eq: "map heading a' = map heading a" "t' = t" by simp_all
  obtain r s where rs: "liquidationLoop U m es = (r, s)"
    by (cases "liquidationLoop U m es")
  obtain r' s' where rs': "liquidationLoop U ?m' es = (r', s')"
    by (cases "liquidationLoop U ?m' es")
  from Cons rs rs' have eq2: "map heading r' = map heading r" "s' = s" by simp_all
  show ?case
    using it it' eq rs rs' eq2 by (cases t) simp_all
qed

lemma checkForNewLiquidations_sets:
  "map heading (fst (snd (checkForNewLiquidations U
       (m\<lparr>monitoredLiquidators := L, monitoredDisputers := D\<rparr>) f)))
     = map heading (fst (snd (checkForNewLiquidations U m f)))
   \<and> snd (snd (checkForNewLiquidations U (m\<lparr>monitoredLiquidators := L, monitoredDisputers := D\<rparr>) f))
     = snd (snd (checkForNewLiquidations U m f))
   \<and> fst (checkForNewLiquidations U (m\<lparr>monitoredLiquidators := L, monitoredDisputers := D\<rparr>) f)
     = (fst (checkForNewLiquidations U m f))\<lparr>monitoredLiquidators := L, monitoredDisputers := D\<rparr>"
proof -
  let ?m' = "m\<lparr>monitoredLiquidators := L, monitoredDisputers := D\<rparr>"
  have new: "newLiquidationEvents ?m' f = newLiquidationEvents m f"
    by (simp add: newLiquidationEvents_def)
  obtain r t where rt: "liquidationLoop U m (newLiquidationEvents m f) = (r, t)"
    by (cases "liquidationLoop U m (newLiquidationEvents m f)")
  obtain r' t' where rt': "liquidationLoop U ?m' (newLiquidationEvents m f) = (r', t')"
    by (cases "liquidationLoop U ?m' (newLiquidationEvents m f)")
  from liquidationLoop_sets [where U = U and m = m and L = L and D = D
      and es = "newLiquidationEvents m f"] rt rt'
  have eq: "map heading r' = map heading r" "t' = t" by simp_all
  show ?thesis
    using eq rt rt' by (cases t) (simp_all add: checkForNewLiquidations_def new Let_def heading_def)
qed

subsection \<open>Independence of the configured synthetic symbol\<close>

lemma checkForNewLiquidations_fst_cases:
  "fst (checkForNewLiquidations U m f) = m
   \<or> fst (checkForNewLiquidations U m f)
       = m\<lparr>lastLiquidationBlockNumber := getLastSeenBlockNumber f\<rparr>"
proof -
  obtain a b where ab: "liquidationLoop U m (newLiquidationEvents m f) = (a, b)"
    by (cases "liquidationLoop U m (newLiquidationEvents m f)")
  then show ?thesis
    by (cases b) (simp_all add: checkForNewLiquidations_def Let_def)
qed

lemma liquidationsAfter_frame:
  "\<exists>n. liquidationsAfter U m fs = m\<lparr>lastLiquidationBlockNumber := n\<rparr>"
proof (induction fs rule: rev_induct)
  case Nil
  have "m = m\<lparr>lastLiquidationBlockNumber := lastLiquidationBlockNumber m\<rparr>" by simp
  then show ?case unfolding liquidationsAfter_def by (intro exI [of _ "lastLiquidationBlockNumber m"]) simp
next
  case (snoc f fs)
  then obtain n where n: "liquidationsAfter U m fs = m\<lparr>lastLiquidationBlockNumber := n\<rparr>"
    by blast
  from checkForNewLiquidations_fst_cases [of U "liquidationsAfter U m fs" f]
  show ?case
    by (auto simp: liquidationsAfter_snoc n)
qed

lemma liquidationMrkdwn_watermark:
  "liquidationMrkdwn U (m\<lparr>lastLiquidationBlockNumber := n\<rparr>) e cs ms price cr
     = liquidationMrkdwn U m e cs ms price cr"
  by (simp add: liquidationMrkdwn_def cong: option.case_cong)

lemma liquidationMrkdwn_symbol:
  "liquidationMrkdwn U (m\<lparr>empProps := (empProps m)\<lparr>EmpProps.syntheticCurrencySymbol := s\<rparr>\<rparr>)
      e cs ms price cr
     = liquidationMrkdwn U m e cs ms price cr"
  by (simp add: liquidationMrkdwn_def cong: option.case_cong)

lemma liquidationIteration_symbol:
  "liquidationIteration U (m\<lparr>empProps := (empProps m)\<lparr>EmpProps.syntheticCurrencySymbol := s\<rparr>\<rparr>) e
     = liquidationIteration U m e"
  by (simp add: liquidationIteration_def logLiquidationAlert_def liquidationMrkdwn_symbol Let_def
      cong: option.case_cong sum.case_cong)

lemma liquidationLoop_symbol:
  "liquidationLoop U (m\<lparr>empProps := (empProps m)\<lparr>EmpProps.syntheticCurrencySymbol := s\<rparr>\<rparr>) es
     = liquidationLoop U m es"
  by (induction es) (simp_all add: liquidationIteration_symbol)

lemma checkForNewLiquidations_symbol:
  "checkForNewLiquidations U (m\<lparr>empProps := (empProps m)\<lparr>EmpProps.syntheticCurrencySymbol := s\<rparr>\<rparr>) f
     = (case checkForNewLiquidations U m f of
          (m', entries, thrown) \<Rightarrow>
            (m'\<lparr>empProps := (empProps m')\<lparr>EmpProps.syntheticCurrencySymbol := s\<rparr>\<rparr>, entries, thrown))"
proof -
  obtain a b where ab: "liquidationLoop U m (newLiquidationEvents m f) = (a, b)"
    by (cases "liquidationLoop U m (newLiquidationEvents m f)")
  have new: "newLiquidationEvents (m\<lparr>empProps := (empProps m)\<lparr>EmpProps.syntheticCurrencySymbol := s\<rparr>\<rparr>) f
      = newLiquidationEvents m f"
    by (simp add: newLiquidationEvents_def)
  show ?thesis
    using ab
    by (cases b) (simp_all add: checkForNewLiquidations_def Let_def new liquidationLoop_symbol)
qed

lemma liquidationsAfter_symbol:
  "liquidationsAfter U (m\<lparr>empProps := (empProps m)\<lparr>EmpProps.syntheticCurrencySymbol := s\<rparr>\<rparr>) fs
     = (liquidationsAfter U m fs)
         \<lparr>empProps := (empProps (liquidationsAfter U m fs))\<lparr>EmpProps.syntheticCurrencySymbol := s\<rparr>\<rparr>"
proof (induction fs rule: rev_induct)
  case Nil
  show ?case by (simp add: liquidationsAfter_def)
next
  case (snoc f fs)
  obtain m' entries thrown where r:
    "checkForNewLiquidations U (liquidationsAfter U m fs) f = (m', entries, thrown)"
    by (cases "checkForNewLiquidations U (liquidationsAfter U m fs) f")
  show ?case
    by (simp add: liquidationsAfter_snoc snoc checkForNewLiquidations_symbol r)
qed

lemma constructor_symbol:
  "constructor U client config feed (props\<lparr>EmpProps.syntheticCurrencySymbol := s\<rparr>)
     = (constructor U client config feed props)
         \<lparr>empProps := (empProps (constructor U client config feed props))
                         \<lparr>EmpProps.syntheticCurrencySymbol := s\<rparr>\<rparr>"
  by (simp add: constructor_def)

section \<open>The derived metrics\<close>

text \<open>
  Claim C5. \<open>calculatePositionCRPercent\<close> computes
  \<open>(collateral * 1e18 * 1e18) / (tokensOutstanding * price) * 100\<close> over the integers, the
  two products formed before the single division and the factor 100 applied to the
  quotient: whenever the divisor is not zero it returns the value of the formula as the
  specification words it, for non-negative collateral and positive tokens and price that is
  the integer quotient \<open>div\<close>, and for collateral 2000e18, tokens 1000e18 and price 1e18
  it returns exactly 200e18.
\<close>

theorem calculatePositionCRPercent_exact:
  "(tokens * tokenPrice \<noteq> 0 \<longrightarrow>
      calculatePositionCRPercent collateral tokens tokenPrice
        = Inr (collateralizationRatioPercent_spec collateral tokens tokenPrice))
   \<and> (0 \<le> collateral \<and> 0 < tokens \<and> 0 < tokenPrice \<longrightarrow>
      calculatePositionCRPercent collateral tokens tokenPrice
        = Inr ((collateral * 10 ^ 18 * 10 ^ 18) div (tokens * tokenPrice) * 100))
   \<and> calculatePositionCRPercent (2000 * 10 ^ 18) (1000 * 10 ^ 18) (10 ^ 18) = Inr (200 * 10 ^ 18)"
proof (intro conjI impI)
  assume nz: "tokens * tokenPrice \<noteq> 0"
  then show "calculatePositionCRPercent collateral tokens tokenPrice
        = Inr (collateralizationRatioPercent_spec collateral tokens tokenPrice)"
    by (simp add: calculatePositionCRPercent_def collateralizationRatioPercent_spec_def
        BN_mul_def BN_muln_def toWei1_def BN_div_quotient)
next
  assume pos: "0 \<le> collateral \<and> 0 < tokens \<and> 0 < tokenPrice"
  then have d: "0 < tokens * tokenPrice" by simp
  from pos have n: "0 \<le> BN_mul (BN_mul collateral toWei1) toWei1"
    by (simp add: BN_mul_def toWei1_def)
  show "calculatePositionCRPercent collateral tokens tokenPrice
        = Inr ((collateral * 10 ^ 18 * 10 ^ 18) div (tokens * tokenPrice) * 100)"
    unfolding calculatePositionCRPercent_def
    using BN_div_nonneg [OF n, of "BN_mul tokens tokenPrice"] d
    by (simp add: BN_mul_def BN_muln_def toWei1_def)
next
  show "calculatePositionCRPercent (2000 * 10 ^ 18) (1000 * 10 ^ 18) (10 ^ 18) = Inr (200 * 10 ^ 18)"
    by (simp add: calculatePositionCRPercent_def BN_mul_def BN_muln_def toWei1_def BN_div_def)
qed

theorem calculatePositionCRPercent_exact_witness:
  "(3 * 10 ^ 18) * (2 * 10 ^ 18) \<noteq> (0::int)
   \<and> calculatePositionCRPercent (5 * 10 ^ 18) (3 * 10 ^ 18) (2 * 10 ^ 18) = Inr 83333333333333333300
   \<and> collateralizationRatioPercent_spec (5 * 10 ^ 18) (3 * 10 ^ 18) (2 * 10 ^ 18) = 83333333333333333300
   \<and> ((5 * 10 ^ 18) * 10 ^ 18 * 10 ^ 18) div ((3 * 10 ^ 18) * (2 * 10 ^ 18)) * 100 = (83333333333333333300::int)"
  using calculatePositionCRPercent_exact [of "3 * 10 ^ 18" "2 * 10 ^ 18" "5 * 10 ^ 18"]
  by (simp add: collateralizationRatioPercent_spec_def quotient_def)

text \<open>
  Claim C6. \<open>calculateDisputablePrice\<close> computes
  \<open>(liquidatedCollateral * 1e18 / liquidatedTokens) * 1e18 / crRequirement\<close> over the
  integers in that order: whenever both divisors are not zero it returns the value of the
  formula as the specification words it, for non-negative collateral and positive tokens
  and requirement that is the formula with the integer quotient \<open>div\<close>, and for a
  requirement of 1.2e18, collateral 1200e18 and tokens 1000e18 it returns exactly 1e18.
\<close>

theorem calculateDisputablePrice_exact:
  "(liquidatedTokens \<noteq> 0 \<and> crRequirement \<noteq> 0 \<longrightarrow>
      calculateDisputablePrice crRequirement lCollateral liquidatedTokens
        = Inr (disputablePriceThreshold_spec crRequirement lCollateral liquidatedTokens))
   \<and> (0 \<le> lCollateral \<and> 0 < liquidatedTokens \<and> 0 < crRequirement \<longrightarrow>
      calculateDisputablePrice crRequirement lCollateral liquidatedTokens
        = Inr ((lCollateral * 10 ^ 18 div liquidatedTokens) * 10 ^ 18 div crRequirement))
   \<and> calculateDisputablePrice (12 * 10 ^ 17) (1200 * 10 ^ 18) (1000 * 10 ^ 18) = Inr (10 ^ 18)"
proof (intro conjI impI)
  assume "liquidatedTokens \<noteq> 0 \<and> crRequirement \<noteq> 0"
  then show "calculateDisputablePrice crRequirement lCollateral liquidatedTokens
        = Inr (disputablePriceThreshold_spec crRequirement lCollateral liquidatedTokens)"
    by (simp add: calculateDisputablePrice_def disputablePriceThreshold_spec_def
        BN_mul_def toWei1_def BN_div_quotient)
next
  assume pos: "0 \<le> lCollateral \<and> 0 < liquidatedTokens \<and> 0 < crRequirement"
  then have n1: "0 \<le> BN_mul lCollateral toWei1"
    by (simp add: BN_mul_def toWei1_def)
  from pos have t: "0 < liquidatedTokens" and c: "0 < crRequirement" by simp_all
  define q where "q = BN_mul lCollateral toWei1 div liquidatedTokens"
  have q1: "BN_div (BN_mul lCollateral toWei1) liquidatedTokens = Inr q"
    unfolding q_def by (rule BN_div_nonneg [OF n1 t])
  have "0 \<le> q"
    unfolding q_def using n1 t by (simp add: pos_imp_zdiv_nonneg_iff)
  then have n2: "0 \<le> BN_mul q toWei1"
    by (simp add: BN_mul_def toWei1_def)
  have q2: "BN_div (BN_mul q toWei1) crRequirement = Inr (BN_mul q toWei1 div crRequirement)"
    by (rule BN_div_nonneg [OF n2 c])
  show "calculateDisputablePrice crRequirement lCollateral liquidatedTokens
        = Inr ((lCollateral * 10 ^ 18 div liquidatedTokens) * 10 ^ 18 div crRequirement)"
    unfolding calculateDisputablePrice_def q1 sum.case q2
    by (simp add: q_def BN_mul_def toWei1_def)
next
  show "calculateDisputablePrice (12 * 10 ^ 17) (1200 * 10 ^ 18) (1000 * 10 ^ 18) = Inr (10 ^ 18)"
    by (simp add: calculateDisputablePrice_def BN_mul_def toWei1_def BN_div_def)
qed

theorem calculateDisputablePrice_exact_witness:
  "(7 * 10 ^ 18) \<noteq> (0::int) \<and> (15 * 10 ^ 17) \<noteq> (0::int)
   \<and> calculateDisputablePrice (15 * 10 ^ 17) (10 * 10 ^ 18) (7 * 10 ^ 18) = Inr 952380952380952380
   \<and> disputablePriceThreshold_spec (15 * 10 ^ 17) (10 * 10 ^ 18) (7 * 10 ^ 18) = 952380952380952380
   \<and> ((10 * 10 ^ 18) * 10 ^ 18 div (7 * 10 ^ 18)) * 10 ^ 18 div (15 * 10 ^ 17) = (952380952380952380::int)"
  using calculateDisputablePrice_exact [of "7 * 10 ^ 18" "15 * 10 ^ 17" "10 * 10 ^ 18"]
  by (simp add: disputablePriceThreshold_spec_def quotient_def)

text \<open>
  Claim C7, as amended. \<open>calculatePositionCRPercent\<close> throws exactly when
  \<open>tokensOutstanding * price\<close> is zero, in particular whenever the outstanding tokens are
  zero, and \<open>calculateDisputablePrice\<close> throws exactly when the liquidated tokens or the
  collateral requirement is zero; neither returns a value there. Neither function checks
  its divisors: what is thrown is the failed assertion of bn.js, a plain \<open>Error\<close> whose
  message is \<open>Assertion failed\<close>.
\<close>

theorem zero_denominator_assertion_failed:
  "(calculatePositionCRPercent collateral tokens tokenPrice = Inl (Error ''Assertion failed'')
      \<longleftrightarrow> tokens * tokenPrice = 0)
   \<and> (isl (calculatePositionCRPercent collateral tokens tokenPrice)
      \<longleftrightarrow> tokens * tokenPrice = 0)
   \<and> (calculateDisputablePrice crRequirement lCollateral liquidatedTokens
        = Inl (Error ''Assertion failed'')
      \<longleftrightarrow> liquidatedTokens = 0 \<or> crRequirement = 0)
   \<and> (isl (calculateDisputablePrice crRequirement lCollateral liquidatedTokens)
      \<longleftrightarrow> liquidatedTokens = 0 \<or> crRequirement = 0)
   \<and> calculatePositionCRPercent collateral 0 tokenPrice = Inl (Error ''Assertion failed'')
   \<and> calculateDisputablePrice 0 lCollateral liquidatedTokens = Inl (Error ''Assertion failed'')"
  by (simp add: calculatePositionCRPercent_cases calculateDisputablePrice_cases)

text \<open>
  The claim as stated asks for an explicit arithmetic error and no opaque message. With
  zero outstanding tokens, and with a zero collateral requirement, the error thrown is the
  plain \<open>Error\<close> with the message \<open>Assertion failed\<close>, which names neither the division
  nor the zero divisor.
\<close>

theorem zero_denominator_counterexample:
  "calculatePositionCRPercent (2000 * 10 ^ 18) 0 (10 ^ 18) = Inl (Error ''Assertion failed'')
   \<and> calculateDisputablePrice 0 (1200 * 10 ^ 18) (1000 * 10 ^ 18) = Inl (Error ''Assertion failed'')"
  by (simp add: calculatePositionCRPercent_def calculateDisputablePrice_def BN_div_def BN_mul_def
      toWei1_def)

section \<open>Watermarks\<close>

text \<open>
  Claim C2, as amended. An invocation of a check-method whose fetched list is empty leaves
  the watermark of its category at 0, whatever the watermark was before:
  \<open>getLastSeenBlockNumber\<close> answers 0 for an empty list and the method assigns that
  answer. (An empty list has no new event, so \<open>checkForNewLiquidations\<close> cannot throw
  on it.)
\<close>

theorem empty_fetch_resets_watermark:
  "lastNewSponsorBlockNumber (fst (checkForNewSponsors U this [])) = 0
   \<and> lastLiquidationBlockNumber (fst (checkForNewLiquidations U this [])) = 0
   \<and> snd (snd (checkForNewLiquidations U this [])) = None
   \<and> lastDisputeBlockNumber (fst (checkForNewDisputeEvents U this [])) = 0
   \<and> lastDisputeSettlementBlockNumber (fst (checkForNewDisputeSettlementEvents U this [])) = 0"
  by (simp add: checkForNewSponsors_watermark checkForNewDisputeEvents_watermark
      checkForNewDisputeSettlementEvents_watermark liquidationsComplete_Nil_fetch
      getLastSeenBlockNumber_Nil)

text \<open>
  The claim as stated, the watermark after an empty fetch equals the watermark before,
  fails once the watermark is not 0: after an invocation on a list ending at block 10 the
  sponsor watermark is 10, and an invocation on the empty list sets it to 0.
\<close>

theorem empty_fetch_watermark_counterexample:
  "lastNewSponsorBlockNumber (sponsorsAfter exampleUtils exampleMonitor [[sponsorAt 10]]) = 10
   \<and> lastNewSponsorBlockNumber
        (fst (checkForNewSponsors exampleUtils
               (sponsorsAfter exampleUtils exampleMonitor [[sponsorAt 10]]) [])) = 0"
  by (simp add: sponsorsAfter_def checkForNewSponsors_def getLastSeenBlockNumber_def sponsorAt_def)

text \<open>
  Claim C3, as amended. Let the fetch results of a category be non-decreasing (within each
  list, and in the last-seen block number from one fetch to the next, an empty list
  counting as block 0), let the watermark start at 0 as the constructor sets it, and let
  every invocation complete. Then after the invocations the watermark equals the greatest
  block number of all events ever fetched (0 when there was none), and it does not decrease
  from one invocation to the next.
\<close>

theorem watermark_is_max_seen:
  "(nonDecreasingFetches sponsorFetches \<and> lastNewSponsorBlockNumber this = 0 \<longrightarrow>
      lastNewSponsorBlockNumber (sponsorsAfter U this sponsorFetches)
        = Max (insert 0 (blockNumber ` set (concat sponsorFetches)))
      \<and> (\<forall>k < length sponsorFetches.
            lastNewSponsorBlockNumber (sponsorsAfter U this (take k sponsorFetches))
            \<le> lastNewSponsorBlockNumber (sponsorsAfter U this (take (Suc k) sponsorFetches))))
   \<and> (nonDecreasingFetches liquidationFetches \<and> lastLiquidationBlockNumber this = 0
        \<and> liquidationsComplete U this liquidationFetches \<longrightarrow>
      lastLiquidationBlockNumber (liquidationsAfter U this liquidationFetches)
        = Max (insert 0 (blockNumber ` set (concat liquidationFetches)))
      \<and> (\<forall>k < length liquidationFetches.
            lastLiquidationBlockNumber (liquidationsAfter U this (take k liquidationFetches))
            \<le> lastLiquidationBlockNumber
                (liquidationsAfter U this (take (Suc k) liquidationFetches))))
   \<and> (nonDecreasingFetches disputeFetches \<and> lastDisputeBlockNumber this = 0 \<longrightarrow>
      lastDisputeBlockNumber (disputesAfter U this disputeFetches)
        = Max (insert 0 (blockNumber ` set (concat disputeFetches)))
      \<and> (\<forall>k < length disputeFetches.
            lastDisputeBlockNumber (disputesAfter U this (take k disputeFetches))
            \<le> lastDisputeBlockNumber (disputesAfter U this (take (Suc k) disputeFetches))))
   \<and> (nonDecreasingFetches settlementFetches \<and> lastDisputeSettlementBlockNumber this = 0 \<longrightarrow>
      lastDisputeSettlementBlockNumber (disputeSettlementsAfter U this settlementFetches)
        = Max (insert 0 (blockNumber ` set (concat settlementFetches)))
      \<and> (\<forall>k < length settlementFetches.
            lastDisputeSettlementBlockNumber
              (disputeSettlementsAfter U this (take k settlementFetches))
            \<le> lastDisputeSettlementBlockNumber
                (disputeSettlementsAfter U this (take (Suc k) settlementFetches))))"
proof (intro conjI impI allI)
  fix k
  assume h: "nonDecreasingFetches sponsorFetches \<and> lastNewSponsorBlockNumber this = 0"
    and k: "k < length sponsorFetches"
  show "lastNewSponsorBlockNumber (sponsorsAfter U this (take k sponsorFetches))
        \<le> lastNewSponsorBlockNumber (sponsorsAfter U this (take (Suc k) sponsorFetches))"
  proof (cases k)
    case 0
    with h show ?thesis by (simp add: sponsorsAfter_def)
  next
    case (Suc n)
    with h k lastSeen_chain_mono [of sponsorFetches k] show ?thesis
      by (simp add: sponsorsAfter_take_watermark)
  qed
next
  assume h: "nonDecreasingFetches sponsorFetches \<and> lastNewSponsorBlockNumber this = 0"
  show "lastNewSponsorBlockNumber (sponsorsAfter U this sponsorFetches)
        = Max (insert 0 (blockNumber ` set (concat sponsorFetches)))"
  proof (cases "sponsorFetches = []")
    case True
    with h show ?thesis by (simp add: sponsorsAfter_def)
  next
    case False
    with h show ?thesis by (simp add: sponsorsAfter_watermark lastSeen_is_Max)
  qed
next
  fix k
  assume h: "nonDecreasingFetches liquidationFetches \<and> lastLiquidationBlockNumber this = 0
        \<and> liquidationsComplete U this liquidationFetches"
    and k: "k < length liquidationFetches"
  show "lastLiquidationBlockNumber (liquidationsAfter U this (take k liquidationFetches))
        \<le> lastLiquidationBlockNumber (liquidationsAfter U this (take (Suc k) liquidationFetches))"
  proof (cases k)
    case 0
    with h show ?thesis by (simp add: liquidationsAfter_def)
  next
    case (Suc n)
    with h k lastSeen_chain_mono [of liquidationFetches k] show ?thesis
      by (simp add: liquidationsAfter_take_watermark)
  qed
next
  assume h: "nonDecreasingFetches liquidationFetches \<and> lastLiquidationBlockNumber this = 0
        \<and> liquidationsComplete U this liquidationFetches"
  show "lastLiquidationBlockNumber (liquidationsAfter U this liquidationFetches)
        = Max (insert 0 (blockNumber ` set (concat liquidationFetches)))"
  proof (cases "liquidationFetches = []")
    case True
    with h show ?thesis by (simp add: liquidationsAfter_def)
  next
    case False
    with h show ?thesis by (simp add: liquidationsAfter_watermark_last lastSeen_is_Max)
  qed
next
  fix k
  assume h: "nonDecreasingFetches disputeFetches \<and> lastDisputeBlockNumber this = 0"
    and k: "k < length disputeFetches"
  show "lastDisputeBlockNumber (disputesAfter U this (take k disputeFetches))
        \<le> lastDisputeBlockNumber (disputesAfter U this (take (Suc k) disputeFetches))"
  proof (cases k)
    case 0
    with h show ?thesis by (simp add: disputesAfter_def)
  next
    case (Suc n)
    with h k lastSeen_chain_mono [of disputeFetches k] show ?thesis
      by (simp add: disputesAfter_take_watermark)
  qed
next
  assume h: "nonDecreasingFetches disputeFetches \<and> lastDisputeBlockNumber this = 0"
  show "lastDisputeBlockNumber (disputesAfter U this disputeFetches)
        = Max (insert 0 (blockNumber ` set (concat disputeFetches)))"
  proof (cases "disputeFetches = []")
    case True
    with h show ?thesis by (simp add: disputesAfter_def)
  next
    case False
    with h show ?thesis by (simp add: disputesAfter_watermark lastSeen_is_Max)
  qed
next
  fix k
  assume h: "nonDecreasingFetches settlementFetches \<and> lastDisputeSettlementBlockNumber this = 0"
    and k: "k < length settlementFetches"
  show "lastDisputeSettlementBlockNumber (disputeSettlementsAfter U this (take k settlementFetches))
        \<le> lastDisputeSettlementBlockNumber
            (disputeSettlementsAfter U this (take (Suc k) settlementFetches))"
  proof (cases k)
    case 0
    with h show ?thesis by (simp add: disputeSettlementsAfter_def)
  next
    case (Suc n)
    with h k lastSeen_chain_mono [of settlementFetches k] show ?thesis
      by (simp add: disputeSettlementsAfter_take_watermark)
  qed
next
  assume h: "nonDecreasingFetches settlementFetches \<and> lastDisputeSettlementBlockNumber this = 0"
  show "lastDisputeSettlementBlockNumber (disputeSettlementsAfter U this settlementFetches)
        = Max (insert 0 (blockNumber ` set (concat settlementFetches)))"
  proof (cases "settlementFetches = []")
    case True
    with h show ?thesis by (simp add: disputeSettlementsAfter_def)
  next
    case False
    with h show ?thesis by (simp add: disputeSettlementsAfter_watermark lastSeen_is_Max)
  qed
qed

text \<open>The hypotheses hold, and the watermark is the maximum, on runs of two and three fetches.\<close>

theorem watermark_is_max_seen_witness:
  "nonDecreasingFetches [[sponsorAt 10, sponsorAt 15], [sponsorAt 10, sponsorAt 15, sponsorAt 20]]
   \<and> lastNewSponsorBlockNumber exampleMonitor = 0
   \<and> lastNewSponsorBlockNumber (sponsorsAfter exampleUtils exampleMonitor
        [[sponsorAt 10, sponsorAt 15], [sponsorAt 10, sponsorAt 15, sponsorAt 20]])
      = Max (insert 0 (blockNumber ` set (concat
          [[sponsorAt 10, sponsorAt 15], [sponsorAt 10, sponsorAt 15, sponsorAt 20]])))
   \<and> Max (insert 0 (blockNumber ` set (concat
          [[sponsorAt 10, sponsorAt 15], [sponsorAt 10, sponsorAt 15, sponsorAt 20]]))) = 20
   \<and> nonDecreasingFetches [[liquidationAt 5 100], [liquidationAt 5 100, liquidationAt 8 100]]
   \<and> lastLiquidationBlockNumber exampleMonitor = 0
   \<and> liquidationsComplete exampleUtils exampleMonitor
        [[liquidationAt 5 100], [liquidationAt 5 100, liquidationAt 8 100]]
   \<and> lastLiquidationBlockNumber (liquidationsAfter exampleUtils exampleMonitor
        [[liquidationAt 5 100], [liquidationAt 5 100, liquidationAt 8 100]])
      = Max (insert 0 (blockNumber ` set (concat
          [[liquidationAt 5 100], [liquidationAt 5 100, liquidationAt 8 100]])))
   \<and> nonDecreasingFetches [[], [disputeAt 3], [disputeAt 3, disputeAt 4]]
   \<and> lastDisputeBlockNumber exampleMonitor = 0
   \<and> lastDisputeBlockNumber (disputesAfter exampleUtils exampleMonitor
        [[], [disputeAt 3], [disputeAt 3, disputeAt 4]])
      = Max (insert 0 (blockNumber ` set (concat [[], [disputeAt 3], [disputeAt 3, disputeAt 4]])))
   \<and> nonDecreasingFetches [[disputeSettlementAt 7], [disputeSettlementAt 7]]
   \<and> lastDisputeSettlementBlockNumber exampleMonitor = 0
   \<and> lastDisputeSettlementBlockNumber (disputeSettlementsAfter exampleUtils exampleMonitor
        [[disputeSettlementAt 7], [disputeSettlementAt 7]])
      = Max (insert 0 (blockNumber ` set (concat [[disputeSettlementAt 7], [disputeSettlementAt 7]])))"
proof -
  have s: "nonDecreasingFetches [[sponsorAt 10, sponsorAt 15], [sponsorAt 10, sponsorAt 15, sponsorAt 20]]
      \<and> lastNewSponsorBlockNumber exampleMonitor = 0"
    by (simp add: example_defs nonDecreasingFetches_def getLastSeenBlockNumber_def)
  have l: "nonDecreasingFetches [[liquidationAt 5 100], [liquidationAt 5 100, liquidationAt 8 100]]
      \<and> lastLiquidationBlockNumber exampleMonitor = 0
      \<and> liquidationsComplete exampleUtils exampleMonitor
           [[liquidationAt 5 100], [liquidationAt 5 100, liquidationAt 8 100]]"
    by (simp add: example_defs method_defs)
  have d: "nonDecreasingFetches [[], [disputeAt 3], [disputeAt 3, disputeAt 4]]
      \<and> lastDisputeBlockNumber exampleMonitor = 0"
    by (simp add: example_defs nonDecreasingFetches_def getLastSeenBlockNumber_def)
  have t: "nonDecreasingFetches [[disputeSettlementAt 7], [disputeSettlementAt 7]]
      \<and> lastDisputeSettlementBlockNumber exampleMonitor = 0"
    by (simp add: example_defs nonDecreasingFetches_def getLastSeenBlockNumber_def)
  have m: "Max (insert 0 (blockNumber ` set (concat
          [[sponsorAt 10, sponsorAt 15], [sponsorAt 10, sponsorAt 15, sponsorAt 20]]))) = 20"
    by (simp add: sponsorAt_def)
  note w = watermark_is_max_seen [of
      "[[sponsorAt 10, sponsorAt 15], [sponsorAt 10, sponsorAt 15, sponsorAt 20]]" exampleMonitor
      exampleUtils
      "[[liquidationAt 5 100], [liquidationAt 5 100, liquidationAt 8 100]]"
      "[[], [disputeAt 3], [disputeAt 3, disputeAt 4]]"
      "[[disputeSettlementAt 7], [disputeSettlementAt 7]]"]
  from w s have 1: "lastNewSponsorBlockNumber (sponsorsAfter exampleUtils exampleMonitor
        [[sponsorAt 10, sponsorAt 15], [sponsorAt 10, sponsorAt 15, sponsorAt 20]])
      = Max (insert 0 (blockNumber ` set (concat
          [[sponsorAt 10, sponsorAt 15], [sponsorAt 10, sponsorAt 15, sponsorAt 20]])))"
    by blast
  from w l have 2: "lastLiquidationBlockNumber (liquidationsAfter exampleUtils exampleMonitor
        [[liquidationAt 5 100], [liquidationAt 5 100, liquidationAt 8 100]])
      = Max (insert 0 (blockNumber ` set (concat
          [[liquidationAt 5 100], [liquidationAt 5 100, liquidationAt 8 100]])))"
    by blast
  from w d have 3: "lastDisputeBlockNumber (disputesAfter exampleUtils exampleMonitor
        [[], [disputeAt 3], [disputeAt 3, disputeAt 4]])
      = Max (insert 0 (blockNumber ` set (concat [[], [disputeAt 3], [disputeAt 3, disputeAt 4]])))"
    by blast
  from w t have 4: "lastDisputeSettlementBlockNumber (disputeSettlementsAfter exampleUtils exampleMonitor
        [[disputeSettlementAt 7], [disputeSettlementAt 7]])
      = Max (insert 0 (blockNumber ` set (concat [[disputeSettlementAt 7], [disputeSettlementAt 7]])))"
    by blast
  from s l d t m 1 2 3 4 show ?thesis by blast
qed

text \<open>
  Without the ordering the claim fails: an empty fetch after a list ending at block 10
  takes the watermark from 10 back to 0 while the greatest block seen stays 10, and on a
  list that is not sorted the watermark is the block of the last element, not the
  greatest.
\<close>

theorem watermark_max_counterexample:
  "lastNewSponsorBlockNumber (sponsorsAfter exampleUtils exampleMonitor [[sponsorAt 10]]) = 10
   \<and> lastNewSponsorBlockNumber (sponsorsAfter exampleUtils exampleMonitor [[sponsorAt 10], []]) = 0
   \<and> Max (insert 0 (blockNumber ` set (concat [[sponsorAt 10], []]))) = 10
   \<and> lastDisputeBlockNumber (disputesAfter exampleUtils exampleMonitor [[disputeAt 20, disputeAt 10]]) = 10
   \<and> Max (insert 0 (blockNumber ` set (concat [[disputeAt 20, disputeAt 10]]))) = 20"
  by (simp add: example_defs method_defs)

section \<open>No alert twice\<close>

text \<open>
  Claim C1, as amended. Let the fetch results of a category be non-decreasing (within each
  list, and in the last-seen block number from one fetch to the next, an empty list
  counting as block 0) and, for \<open>checkForNewLiquidations\<close>, let no invocation throw.
  Then the events alerted by an invocation and the events alerted by any later invocation
  of the same check-method are disjoint. In particular, invoking a check-method again on
  the unchanged, sorted list of an invocation that completed emits no alert.
  The alerts of an invocation are those of its new events, one each and in order
  (\<open>alerts_newSponsors\<close>, \<open>alerts_newDisputes\<close>, \<open>alerts_newDisputeSettlements\<close>,
  and \<open>alerts_newLiquidations_events\<close> for a pass that completes).
\<close>

theorem no_duplicate_alerts:
  "(nonDecreasingFetches sponsorFetches \<and> i < j \<and> j < length sponsorFetches \<longrightarrow>
      set (newSponsorEvents (sponsorsAfter U this (take i sponsorFetches)) (sponsorFetches ! i))
      \<inter> set (newSponsorEvents (sponsorsAfter U this (take j sponsorFetches)) (sponsorFetches ! j))
      = {})
   \<and> (nonDecreasingFetches liquidationFetches \<and> liquidationsComplete U this liquidationFetches
        \<and> i < j \<and> j < length liquidationFetches \<longrightarrow>
      set (newLiquidationEvents (liquidationsAfter U this (take i liquidationFetches))
             (liquidationFetches ! i))
      \<inter> set (newLiquidationEvents (liquidationsAfter U this (take j liquidationFetches))
               (liquidationFetches ! j))
      = {})
   \<and> (nonDecreasingFetches disputeFetches \<and> i < j \<and> j < length disputeFetches \<longrightarrow>
      set (newDisputeEvents (disputesAfter U this (take i disputeFetches)) (disputeFetches ! i))
      \<inter> set (newDisputeEvents (disputesAfter U this (take j disputeFetches)) (disputeFetches ! j))
      = {})
   \<and> (nonDecreasingFetches settlementFetches \<and> i < j \<and> j < length settlementFetches \<longrightarrow>
      set (newDisputeSettlementEvents (disputeSettlementsAfter U this (take i settlementFetches))
             (settlementFetches ! i))
      \<inter> set (newDisputeSettlementEvents (disputeSettlementsAfter U this (take j settlementFetches))
               (settlementFetches ! j))
      = {})
   \<and> (sorted (map blockNumber sponsorList) \<longrightarrow>
      alerts (snd (checkForNewSponsors U (fst (checkForNewSponsors U this sponsorList)) sponsorList))
      = [])
   \<and> (sorted (map blockNumber liquidationList)
        \<and> snd (snd (checkForNewLiquidations U this liquidationList)) = None \<longrightarrow>
      alerts (fst (snd (checkForNewLiquidations U
                (fst (checkForNewLiquidations U this liquidationList)) liquidationList)))
      = [])
   \<and> (sorted (map blockNumber disputeList) \<longrightarrow>
      alerts (snd (checkForNewDisputeEvents U (fst (checkForNewDisputeEvents U this disputeList))
                disputeList))
      = [])
   \<and> (sorted (map blockNumber settlementList) \<longrightarrow>
      alerts (snd (checkForNewDisputeSettlementEvents U
                (fst (checkForNewDisputeSettlementEvents U this settlementList)) settlementList))
      = [])"
proof (intro conjI impI)
  assume h: "nonDecreasingFetches sponsorFetches \<and> i < j \<and> j < length sponsorFetches"
  then have j: "0 < j" "j < length sponsorFetches" by auto
  show "set (newSponsorEvents (sponsorsAfter U this (take i sponsorFetches)) (sponsorFetches ! i))
      \<inter> set (newSponsorEvents (sponsorsAfter U this (take j sponsorFetches)) (sponsorFetches ! j))
      = {}"
  proof (rule disjoint_new_events_general [of sponsorFetches i j])
    show "nonDecreasingFetches sponsorFetches" "i < j" "j < length sponsorFetches"
      using h by simp_all
    show "set (newSponsorEvents (sponsorsAfter U this (take i sponsorFetches)) (sponsorFetches ! i)) \<subseteq> set (sponsorFetches ! i)"
      by (simp add: newSponsorEvents_def)
    show "newSponsorEvents (sponsorsAfter U this (take j sponsorFetches)) (sponsorFetches ! j)
        = filter (\<lambda>e. blockNumber e > getLastSeenBlockNumber (sponsorFetches ! (j - 1))) (sponsorFetches ! j)"
      by (rule newSponsorEvents_after [OF j])
  qed
next
  assume h: "nonDecreasingFetches liquidationFetches \<and> liquidationsComplete U this liquidationFetches
        \<and> i < j \<and> j < length liquidationFetches"
  then have j: "0 < j" "j < length liquidationFetches"
    and c: "liquidationsComplete U this liquidationFetches" by auto
  show "set (newLiquidationEvents (liquidationsAfter U this (take i liquidationFetches))
             (liquidationFetches ! i))
      \<inter> set (newLiquidationEvents (liquidationsAfter U this (take j liquidationFetches))
               (liquidationFetches ! j))
      = {}"
  proof (rule disjoint_new_events_general [of liquidationFetches i j])
    show "nonDecreasingFetches liquidationFetches" "i < j" "j < length liquidationFetches"
      using h by simp_all
    show "set (newLiquidationEvents (liquidationsAfter U this (take i liquidationFetches)) (liquidationFetches ! i)) \<subseteq> set (liquidationFetches ! i)"
      by (simp add: newLiquidationEvents_def)
    show "newLiquidationEvents (liquidationsAfter U this (take j liquidationFetches)) (liquidationFetches ! j)
        = filter (\<lambda>e. blockNumber e > getLastSeenBlockNumber (liquidationFetches ! (j - 1))) (liquidationFetches ! j)"
      by (rule newLiquidationEvents_after [OF c j])
  qed
next
  assume h: "nonDecreasingFetches disputeFetches \<and> i < j \<and> j < length disputeFetches"
  then have j: "0 < j" "j < length disputeFetches" by auto
  show "set (newDisputeEvents (disputesAfter U this (take i disputeFetches)) (disputeFetches ! i))
      \<inter> set (newDisputeEvents (disputesAfter U this (take j disputeFetches)) (disputeFetches ! j))
      = {}"
  proof (rule disjoint_new_events_general [of disputeFetches i j])
    show "nonDecreasingFetches disputeFetches" "i < j" "j < length disputeFetches"
      using h by simp_all
    show "set (newDisputeEvents (disputesAfter U this (take i disputeFetches)) (disputeFetches ! i)) \<subseteq> set (disputeFetches ! i)"
      by (simp add: newDisputeEvents_def)
    show "newDisputeEvents (disputesAfter U this (take j disputeFetches)) (disputeFetches ! j)
        = filter (\<lambda>e. blockNumber e > getLastSeenBlockNumber (disputeFetches ! (j - 1))) (disputeFetches ! j)"
      by (rule newDisputeEvents_after [OF j])
  qed
next
  assume h: "nonDecreasingFetches settlementFetches \<and> i < j \<and> j < length settlementFetches"
  then have j: "0 < j" "j < length settlementFetches" by auto
  show "set (newDisputeSettlementEvents (disputeSettlementsAfter U this (take i settlementFetches))
             (settlementFetches ! i))
      \<inter> set (newDisputeSettlementEvents (disputeSettlementsAfter U this (take j settlementFetches))
               (settlementFetches ! j))
      = {}"
  proof (rule disjoint_new_events_general [of settlementFetches i j])
    show "nonDecreasingFetches settlementFetches" "i < j" "j < length settlementFetches"
      using h by simp_all
    show "set (newDisputeSettlementEvents (disputeSettlementsAfter U this (take i settlementFetches)) (settlementFetches ! i)) \<subseteq> set (settlementFetches ! i)"
      by (simp add: newDisputeSettlementEvents_def)
    show "newDisputeSettlementEvents (disputeSettlementsAfter U this (take j settlementFetches)) (settlementFetches ! j)
        = filter (\<lambda>e. blockNumber e > getLastSeenBlockNumber (settlementFetches ! (j - 1))) (settlementFetches ! j)"
      by (rule newDisputeSettlementEvents_after [OF j])
  qed
next
  assume "sorted (map blockNumber sponsorList)"
  then show "alerts (snd (checkForNewSponsors U (fst (checkForNewSponsors U this sponsorList))
                sponsorList)) = []"
    by (simp add: alerts_newSponsors newSponsorEvents_def checkForNewSponsors_watermark
        no_new_events_on_repeat)
next
  assume h: "sorted (map blockNumber liquidationList)
        \<and> snd (snd (checkForNewLiquidations U this liquidationList)) = None"
  then have new: "newLiquidationEvents (fst (checkForNewLiquidations U this liquidationList))
      liquidationList = []"
    by (simp add: newLiquidationEvents_def checkForNewLiquidations_watermark
        no_new_events_on_repeat)
  show "alerts (fst (snd (checkForNewLiquidations U
                (fst (checkForNewLiquidations U this liquidationList)) liquidationList))) = []"
    by (rule checkForNewLiquidations_nothing_new [OF new])
next
  assume "sorted (map blockNumber disputeList)"
  then show "alerts (snd (checkForNewDisputeEvents U (fst (checkForNewDisputeEvents U this disputeList))
                disputeList)) = []"
    by (simp add: alerts_newDisputes newDisputeEvents_def checkForNewDisputeEvents_watermark
        no_new_events_on_repeat)
next
  assume "sorted (map blockNumber settlementList)"
  then show "alerts (snd (checkForNewDisputeSettlementEvents U
                (fst (checkForNewDisputeSettlementEvents U this settlementList)) settlementList)) = []"
    by (simp add: alerts_newDisputeSettlements newDisputeSettlementEvents_def
        checkForNewDisputeSettlementEvents_watermark no_new_events_on_repeat)
qed

text \<open>Two invocations of each check-method on growing histories, and a repeated invocation.\<close>

theorem no_duplicate_alerts_witness:
  "nonDecreasingFetches [[sponsorAt 10, sponsorAt 15], [sponsorAt 10, sponsorAt 15, sponsorAt 20]]
   \<and> newSponsorEvents (sponsorsAfter exampleUtils exampleMonitor [])
        [sponsorAt 10, sponsorAt 15] = [sponsorAt 10, sponsorAt 15]
   \<and> newSponsorEvents (sponsorsAfter exampleUtils exampleMonitor [[sponsorAt 10, sponsorAt 15]])
        [sponsorAt 10, sponsorAt 15, sponsorAt 20] = [sponsorAt 20]
   \<and> set (newSponsorEvents (sponsorsAfter exampleUtils exampleMonitor
             (take 0 [[sponsorAt 10, sponsorAt 15], [sponsorAt 10, sponsorAt 15, sponsorAt 20]]))
             ([[sponsorAt 10, sponsorAt 15], [sponsorAt 10, sponsorAt 15, sponsorAt 20]] ! 0))
      \<inter> set (newSponsorEvents (sponsorsAfter exampleUtils exampleMonitor
             (take 1 [[sponsorAt 10, sponsorAt 15], [sponsorAt 10, sponsorAt 15, sponsorAt 20]]))
             ([[sponsorAt 10, sponsorAt 15], [sponsorAt 10, sponsorAt 15, sponsorAt 20]] ! 1)) = {}
   \<and> nonDecreasingFetches [[liquidationAt 5 100], [liquidationAt 5 100, liquidationAt 8 100]]
   \<and> liquidationsComplete exampleUtils exampleMonitor
        [[liquidationAt 5 100], [liquidationAt 5 100, liquidationAt 8 100]]
   \<and> set (newLiquidationEvents (liquidationsAfter exampleUtils exampleMonitor
             (take 0 [[liquidationAt 5 100], [liquidationAt 5 100, liquidationAt 8 100]]))
             ([[liquidationAt 5 100], [liquidationAt 5 100, liquidationAt 8 100]] ! 0))
      \<inter> set (newLiquidationEvents (liquidationsAfter exampleUtils exampleMonitor
             (take 1 [[liquidationAt 5 100], [liquidationAt 5 100, liquidationAt 8 100]]))
             ([[liquidationAt 5 100], [liquidationAt 5 100, liquidationAt 8 100]] ! 1)) = {}
   \<and> nonDecreasingFetches [[disputeAt 3], [disputeAt 3, disputeAt 4]]
   \<and> set (newDisputeEvents (disputesAfter exampleUtils exampleMonitor
             (take 0 [[disputeAt 3], [disputeAt 3, disputeAt 4]]))
             ([[disputeAt 3], [disputeAt 3, disputeAt 4]] ! 0))
      \<inter> set (newDisputeEvents (disputesAfter exampleUtils exampleMonitor
             (take 1 [[disputeAt 3], [disputeAt 3, disputeAt 4]]))
             ([[disputeAt 3], [disputeAt 3, disputeAt 4]] ! 1)) = {}
   \<and> nonDecreasingFetches [[disputeSettlementAt 7], [disputeSettlementAt 7, disputeSettlementAt 9]]
   \<and> set (newDisputeSettlementEvents (disputeSettlementsAfter exampleUtils exampleMonitor
             (take 0 [[disputeSettlementAt 7], [disputeSettlementAt 7, disputeSettlementAt 9]]))
             ([[disputeSettlementAt 7], [disputeSettlementAt 7, disputeSettlementAt 9]] ! 0))
      \<inter> set (newDisputeSettlementEvents (disputeSettlementsAfter exampleUtils exampleMonitor
             (take 1 [[disputeSettlementAt 7], [disputeSettlementAt 7, disputeSettlementAt 9]]))
             ([[disputeSettlementAt 7], [disputeSettlementAt 7, disputeSettlementAt 9]] ! 1)) = {}
   \<and> sorted (map blockNumber [sponsorAt 10, sponsorAt 15])
   \<and> alerts (snd (checkForNewSponsors exampleUtils
         (fst (checkForNewSponsors exampleUtils exampleMonitor [sponsorAt 10, sponsorAt 15]))
         [sponsorAt 10, sponsorAt 15])) = []
   \<and> length (alerts (snd (checkForNewSponsors exampleUtils exampleMonitor
         [sponsorAt 10, sponsorAt 15]))) = 2
   \<and> sorted (map blockNumber [liquidationAt 5 100, liquidationAt 8 100])
   \<and> snd (snd (checkForNewLiquidations exampleUtils exampleMonitor
         [liquidationAt 5 100, liquidationAt 8 100])) = None
   \<and> alerts (fst (snd (checkForNewLiquidations exampleUtils
         (fst (checkForNewLiquidations exampleUtils exampleMonitor
                 [liquidationAt 5 100, liquidationAt 8 100]))
         [liquidationAt 5 100, liquidationAt 8 100]))) = []
   \<and> sorted (map blockNumber [disputeAt 3, disputeAt 4])
   \<and> alerts (snd (checkForNewDisputeEvents exampleUtils
         (fst (checkForNewDisputeEvents exampleUtils exampleMonitor [disputeAt 3, disputeAt 4]))
         [disputeAt 3, disputeAt 4])) = []
   \<and> sorted (map blockNumber [disputeSettlementAt 7, disputeSettlementAt 9])
   \<and> alerts (snd (checkForNewDisputeSettlementEvents exampleUtils
         (fst (checkForNewDisputeSettlementEvents exampleUtils exampleMonitor
                 [disputeSettlementAt 7, disputeSettlementAt 9]))
         [disputeSettlementAt 7, disputeSettlementAt 9])) = []"
proof -
  have h: "nonDecreasingFetches [[sponsorAt 10, sponsorAt 15], [sponsorAt 10, sponsorAt 15, sponsorAt 20]]"
    "nonDecreasingFetches [[liquidationAt 5 100], [liquidationAt 5 100, liquidationAt 8 100]]"
    "nonDecreasingFetches [[disputeAt 3], [disputeAt 3, disputeAt 4]]"
    "nonDecreasingFetches [[disputeSettlementAt 7], [disputeSettlementAt 7, disputeSettlementAt 9]]"
    "sorted (map blockNumber [sponsorAt 10, sponsorAt 15])"
    "sorted (map blockNumber [liquidationAt 5 100, liquidationAt 8 100])"
    "sorted (map blockNumber [disputeAt 3, disputeAt 4])"
    "sorted (map blockNumber [disputeSettlementAt 7, disputeSettlementAt 9])"
    by (simp_all add: nonDecreasingFetches_def getLastSeenBlockNumber_def example_defs)
  have c: "liquidationsComplete exampleUtils exampleMonitor
        [[liquidationAt 5 100], [liquidationAt 5 100, liquidationAt 8 100]]"
    "snd (snd (checkForNewLiquidations exampleUtils exampleMonitor
         [liquidationAt 5 100, liquidationAt 8 100])) = None"
    by (simp_all add: example_defs method_defs)
  have e: "newSponsorEvents (sponsorsAfter exampleUtils exampleMonitor [])
        [sponsorAt 10, sponsorAt 15] = [sponsorAt 10, sponsorAt 15]"
    "newSponsorEvents (sponsorsAfter exampleUtils exampleMonitor [[sponsorAt 10, sponsorAt 15]])
        [sponsorAt 10, sponsorAt 15, sponsorAt 20] = [sponsorAt 20]"
    "length (alerts (snd (checkForNewSponsors exampleUtils exampleMonitor
         [sponsorAt 10, sponsorAt 15]))) = 2"
    by (simp_all add: example_defs method_defs alerts_def newSponsorAlert_def)
  note w = no_duplicate_alerts [where i = 0 and j = 1 and U = exampleUtils
      and this = exampleMonitor
      and sponsorFetches = "[[sponsorAt 10, sponsorAt 15], [sponsorAt 10, sponsorAt 15, sponsorAt 20]]"
      and liquidationFetches = "[[liquidationAt 5 100], [liquidationAt 5 100, liquidationAt 8 100]]"
      and disputeFetches = "[[disputeAt 3], [disputeAt 3, disputeAt 4]]"
      and settlementFetches = "[[disputeSettlementAt 7], [disputeSettlementAt 7, disputeSettlementAt 9]]"
      and sponsorList = "[sponsorAt 10, sponsorAt 15]"
      and liquidationList = "[liquidationAt 5 100, liquidationAt 8 100]"
      and disputeList = "[disputeAt 3, disputeAt 4]"
      and settlementList = "[disputeSettlementAt 7, disputeSettlementAt 9]"]
  have 1: "set (newSponsorEvents (sponsorsAfter exampleUtils exampleMonitor
             (take 0 [[sponsorAt 10, sponsorAt 15], [sponsorAt 10, sponsorAt 15, sponsorAt 20]]))
             ([[sponsorAt 10, sponsorAt 15], [sponsorAt 10, sponsorAt 15, sponsorAt 20]] ! 0))
      \<inter> set (newSponsorEvents (sponsorsAfter exampleUtils exampleMonitor
             (take 1 [[sponsorAt 10, sponsorAt 15], [sponsorAt 10, sponsorAt 15, sponsorAt 20]]))
             ([[sponsorAt 10, sponsorAt 15], [sponsorAt 10, sponsorAt 15, sponsorAt 20]] ! 1)) = {}"
    using w [THEN conjunct1] h(1) by (simp del: take_0 nth_Cons_0)
  have 2: "set (newLiquidationEvents (liquidationsAfter exampleUtils exampleMonitor
             (take 0 [[liquidationAt 5 100], [liquidationAt 5 100, liquidationAt 8 100]]))
             ([[liquidationAt 5 100], [liquidationAt 5 100, liquidationAt 8 100]] ! 0))
      \<inter> set (newLiquidationEvents (liquidationsAfter exampleUtils exampleMonitor
             (take 1 [[liquidationAt 5 100], [liquidationAt 5 100, liquidationAt 8 100]]))
             ([[liquidationAt 5 100], [liquidationAt 5 100, liquidationAt 8 100]] ! 1)) = {}"
    using w [THEN conjunct2, THEN conjunct1] h(2) c(1) by (simp del: take_0 nth_Cons_0)
  have 3: "set (newDisputeEvents (disputesAfter exampleUtils exampleMonitor
             (take 0 [[disputeAt 3], [disputeAt 3, disputeAt 4]]))
             ([[disputeAt 3], [disputeAt 3, disputeAt 4]] ! 0))
      \<inter> set (newDisputeEvents (disputesAfter exampleUtils exampleMonitor
             (take 1 [[disputeAt 3], [disputeAt 3, disputeAt 4]]))
             ([[disputeAt 3], [disputeAt 3, disputeAt 4]] ! 1)) = {}"
    using w [THEN conjunct2, THEN conjunct2, THEN conjunct1] h(3)
    by (simp del: take_0 nth_Cons_0)
  have 4: "set (newDisputeSettlementEvents (disputeSettlementsAfter exampleUtils exampleMonitor
             (take 0 [[disputeSettlementAt 7], [disputeSettlementAt 7, disputeSettlementAt 9]]))
             ([[disputeSettlementAt 7], [disputeSettlementAt 7, disputeSettlementAt 9]] ! 0))
      \<inter> set (newDisputeSettlementEvents (disputeSettlementsAfter exampleUtils exampleMonitor
             (take 1 [[disputeSettlementAt 7], [disputeSettlementAt 7, disputeSettlementAt 9]]))
             ([[disputeSettlementAt 7], [disputeSettlementAt 7, disputeSettlementAt 9]] ! 1)) = {}"
    using w [THEN conjunct2, THEN conjunct2, THEN conjunct2, THEN conjunct1] h(4)
    by (simp del: take_0 nth_Cons_0)
  note r = w [THEN conjunct2, THEN conjunct2, THEN conjunct2, THEN conjunct2]
  have 5: "alerts (snd (checkForNewSponsors exampleUtils
         (fst (checkForNewSponsors exampleUtils exampleMonitor [sponsorAt 10, sponsorAt 15]))
         [sponsorAt 10, sponsorAt 15])) = []"
    using r [THEN conjunct1] h(5) by (rule mp)
  have 6: "alerts (fst (snd (checkForNewLiquidations exampleUtils
         (fst (checkForNewLiquidations exampleUtils exampleMonitor
                 [liquidationAt 5 100, liquidationAt 8 100]))
         [liquidationAt 5 100, liquidationAt 8 100]))) = []"
    using r [THEN conjunct2, THEN conjunct1] h(6) c(2) by blast
  have 7: "alerts (snd (checkForNewDisputeEvents exampleUtils
         (fst (checkForNewDisputeEvents exampleUtils exampleMonitor [disputeAt 3, disputeAt 4]))
         [disputeAt 3, disputeAt 4])) = []"
    using r [THEN conjunct2, THEN conjunct2, THEN conjunct1] h(7) by (rule mp)
  have 8: "alerts (snd (checkForNewDisputeSettlementEvents exampleUtils
         (fst (checkForNewDisputeSettlementEvents exampleUtils exampleMonitor
                 [disputeSettlementAt 7, disputeSettlementAt 9]))
         [disputeSettlementAt 7, disputeSettlementAt 9])) = []"
    using r [THEN conjunct2, THEN conjunct2, THEN conjunct2] h(8) by (rule mp)
  show ?thesis
    by (intro conjI h c e 1 2 3 4 5 6 7 8)
qed

text \<open>
  The claim as stated fails in two ways. First, \<open>checkForNewLiquidations\<close> logs the alert
  of an event and then throws on a later event of the same pass (here an event whose price
  is absent): the watermark is not assigned, and the next invocation on the same list logs
  the same alert again. Second, an empty fetch between two fetches of the same event resets
  the watermark to 0, and the event is new again.
\<close>

theorem duplicate_alert_counterexample:
  "nonDecreasingFetches
     [[liquidationAt 5 100, liquidationAt 8 300], [liquidationAt 5 100, liquidationAt 8 300]]
   \<and> snd (snd (checkForNewLiquidations exampleUtils exampleMonitor
                 [liquidationAt 5 100, liquidationAt 8 300])) = Some TypeError
   \<and> liquidationsAfter exampleUtils exampleMonitor [[liquidationAt 5 100, liquidationAt 8 300]]
       = exampleMonitor
   \<and> alerts (fst (snd (checkForNewLiquidations exampleUtils exampleMonitor
                 [liquidationAt 5 100, liquidationAt 8 300])))
       = alerts (iterationEntries exampleUtils exampleMonitor (liquidationAt 5 100))
   \<and> alerts (fst (snd (checkForNewLiquidations exampleUtils
                 (liquidationsAfter exampleUtils exampleMonitor
                    [[liquidationAt 5 100, liquidationAt 8 300]])
                 [liquidationAt 5 100, liquidationAt 8 300])))
       = alerts (iterationEntries exampleUtils exampleMonitor (liquidationAt 5 100))
   \<and> length (alerts (iterationEntries exampleUtils exampleMonitor (liquidationAt 5 100))) = 1
   \<and> sorted (map blockNumber (concat [[sponsorAt 10], [], [sponsorAt 10]]))
   \<and> newSponsorEvents exampleMonitor [sponsorAt 10] = [sponsorAt 10]
   \<and> newSponsorEvents (sponsorsAfter exampleUtils exampleMonitor [[sponsorAt 10], []])
        [sponsorAt 10] = [sponsorAt 10]"
proof -
  have ok: "iterationCompletes exampleUtils exampleMonitor (liquidationAt 5 100)"
    by (simp add: iterationCompletes_def example_defs method_defs)
  have thr: "liquidationIteration exampleUtils exampleMonitor (liquidationAt 8 300)
      = ([priceMissWarning None 300], Some TypeError)"
    by (rule liquidationIteration_price_miss [where cr = "12 * 10 ^ 17"])
      (simp_all add: example_defs)
  have new: "newLiquidationEvents exampleMonitor [liquidationAt 5 100, liquidationAt 8 300]
      = [liquidationAt 5 100] @ liquidationAt 8 300 # []"
    by (simp add: newLiquidationEvents_def example_defs)
  have run: "checkForNewLiquidations exampleUtils exampleMonitor
      [liquidationAt 5 100, liquidationAt 8 300]
      = (exampleMonitor,
         \<lparr> level = Debug, at = ''ContractMonitor'',
           message = ''Checking for new liquidation events'',
           details = [(''lastLiquidationBlockNumber'',
                       Number (lastLiquidationBlockNumber exampleMonitor))] \<rparr>
         # concat (map (iterationEntries exampleUtils exampleMonitor) [liquidationAt 5 100])
         @ iterationEntries exampleUtils exampleMonitor (liquidationAt 8 300),
         Some TypeError)"
    by (rule checkForNewLiquidations_abort [OF new]) (simp_all add: ok thr)
  have warn: "iterationEntries exampleUtils exampleMonitor (liquidationAt 8 300)
      = [priceMissWarning None 300]"
    by (simp add: iterationEntries_def thr)
  have after: "liquidationsAfter exampleUtils exampleMonitor
      [[liquidationAt 5 100, liquidationAt 8 300]] = exampleMonitor"
    by (simp add: liquidationsAfter_def run)
  have nd: "nonDecreasingFetches
     [[liquidationAt 5 100, liquidationAt 8 300], [liquidationAt 5 100, liquidationAt 8 300]]"
    by (simp add: nonDecreasingFetches_def getLastSeenBlockNumber_def liquidationAt_def)
  have sp: "sorted (map blockNumber (concat [[sponsorAt 10], [], [sponsorAt 10]]))
   \<and> newSponsorEvents exampleMonitor [sponsorAt 10] = [sponsorAt 10]
   \<and> newSponsorEvents (sponsorsAfter exampleUtils exampleMonitor [[sponsorAt 10], []])
        [sponsorAt 10] = [sponsorAt 10]"
    by (simp add: example_defs method_defs)
  show ?thesis
    using nd sp alerts_iterationEntries [OF ok]
    by (simp add: after run warn alerts_def priceMissWarning_def)
qed

section \<open>Liquidation alerts\<close>

text \<open>
  Claim C4, which the module attempts and misses. When the historical price of a new
  liquidation event is absent, the iteration logs the warn-level record and sets both
  derived fields to \<open>[Invalid]\<close>, but then builds the message, which formats the absent
  price, and throws there: no alert is logged for the event, the pass ends with the
  \<open>TypeError\<close>, later events are not processed and the watermark is not advanced.
\<close>

theorem price_miss_throws:
  "(liquidations (empContract this) (LiquidationEvent.sponsor event) (liquidationId event)
      = Inr time
    \<and> collateralRequirement (empContract this) = Inr cr
    \<and> getHistoricalPrice (priceFeed this) time = None
    \<longrightarrow> liquidationIteration U this event = ([priceMissWarning None time], Some TypeError))
   \<and> (newLiquidationEvents this latest = pre @ event # post
      \<and> list_all (iterationCompletes U this) pre
      \<and> liquidations (empContract this) (LiquidationEvent.sponsor event) (liquidationId event)
          = Inr time
      \<and> collateralRequirement (empContract this) = Inr cr
      \<and> getHistoricalPrice (priceFeed this) time = None
    \<longrightarrow> checkForNewLiquidations U this latest =
          (this,
           \<lparr> level = Debug, at = ''ContractMonitor'',
             message = ''Checking for new liquidation events'',
             details = [(''lastLiquidationBlockNumber'',
                         Number (lastLiquidationBlockNumber this))] \<rparr>
           # concat (map (iterationEntries U this) pre) @ [priceMissWarning None time],
           Some TypeError))
   \<and> level (priceMissWarning None time) = Warn
   \<and> alerts [priceMissWarning None time] = []"
proof (intro conjI impI)
  assume "liquidations (empContract this) (LiquidationEvent.sponsor event) (liquidationId event)
      = Inr time
    \<and> collateralRequirement (empContract this) = Inr cr
    \<and> getHistoricalPrice (priceFeed this) time = None"
  then show "liquidationIteration U this event = ([priceMissWarning None time], Some TypeError)"
    by (intro liquidationIteration_price_miss [where cr = cr]) simp_all
next
  assume h: "newLiquidationEvents this latest = pre @ event # post
      \<and> list_all (iterationCompletes U this) pre
      \<and> liquidations (empContract this) (LiquidationEvent.sponsor event) (liquidationId event)
          = Inr time
      \<and> collateralRequirement (empContract this) = Inr cr
      \<and> getHistoricalPrice (priceFeed this) time = None"
  then have new: "newLiquidationEvents this latest = pre @ event # post"
    and pre: "list_all (iterationCompletes U this) pre"
    by simp_all
  from h have it: "liquidationIteration U this event = ([priceMissWarning None time], Some TypeError)"
    by (intro liquidationIteration_price_miss [where cr = cr]) simp_all
  then have thr: "snd (liquidationIteration U this event) = Some TypeError"
    and ent: "iterationEntries U this event = [priceMissWarning None time]"
    by (simp_all add: iterationEntries_def)
  show "checkForNewLiquidations U this latest =
          (this,
           \<lparr> level = Debug, at = ''ContractMonitor'',
             message = ''Checking for new liquidation events'',
             details = [(''lastLiquidationBlockNumber'',
                         Number (lastLiquidationBlockNumber this))] \<rparr>
           # concat (map (iterationEntries U this) pre) @ [priceMissWarning None time],
           Some TypeError)"
    using checkForNewLiquidations_abort [OF new pre thr] by (simp add: ent)
next
  show "level (priceMissWarning None time) = Warn"
    by (simp add: priceMissWarning_def)
next
  show "alerts [priceMissWarning None time] = []"
    by (simp add: alerts_def priceMissWarning_def)
qed

text \<open>
  A pass whose only new event, at block 8, has no price: the method logs its debug entry
  and the warn-level record, throws, and leaves the watermark at 0.
\<close>

theorem price_miss_throws_witness:
  "newLiquidationEvents exampleMonitor [liquidationAt 8 300] = [] @ liquidationAt 8 300 # []
   \<and> list_all (iterationCompletes exampleUtils exampleMonitor) []
   \<and> liquidations (empContract exampleMonitor) (LiquidationEvent.sponsor (liquidationAt 8 300))
        (liquidationId (liquidationAt 8 300)) = Inr 300
   \<and> collateralRequirement (empContract exampleMonitor) = Inr (12 * 10 ^ 17)
   \<and> getHistoricalPrice (priceFeed exampleMonitor) 300 = None
   \<and> liquidationIteration exampleUtils exampleMonitor (liquidationAt 8 300)
       = ([priceMissWarning None 300], Some TypeError)
   \<and> checkForNewLiquidations exampleUtils exampleMonitor [liquidationAt 8 300] =
        (exampleMonitor,
         \<lparr> level = Debug, at = ''ContractMonitor'',
           message = ''Checking for new liquidation events'',
           details = [(''lastLiquidationBlockNumber'',
                       Number (lastLiquidationBlockNumber exampleMonitor))] \<rparr>
         # concat (map (iterationEntries exampleUtils exampleMonitor) [])
         @ [priceMissWarning None 300],
         Some TypeError)
   \<and> lastLiquidationBlockNumber exampleMonitor = 0
   \<and> getLastSeenBlockNumber [liquidationAt 8 300] = 8"
proof -
  have new: "newLiquidationEvents exampleMonitor [liquidationAt 8 300]
      = [] @ liquidationAt 8 300 # []"
    by (simp add: newLiquidationEvents_def example_defs)
  have pre: "list_all (iterationCompletes exampleUtils exampleMonitor) []"
    by simp
  have reads: "liquidations (empContract exampleMonitor)
        (LiquidationEvent.sponsor (liquidationAt 8 300))
        (liquidationId (liquidationAt 8 300)) = Inr 300"
    "collateralRequirement (empContract exampleMonitor) = Inr (12 * 10 ^ 17)"
    "getHistoricalPrice (priceFeed exampleMonitor) 300 = None"
    by (simp_all add: example_defs)
  have z: "lastLiquidationBlockNumber exampleMonitor = 0"
    "getLastSeenBlockNumber [liquidationAt 8 300] = 8"
    by (simp_all add: example_defs getLastSeenBlockNumber_def)
  note w = price_miss_throws [where this = exampleMonitor and U = exampleUtils
      and event = "liquidationAt 8 300" and pre = "[]" and post = "[]"
      and latest = "[liquidationAt 8 300]" and time = 300 and cr = "12 * 10 ^ 17"]
  note w1 = w [THEN conjunct1, THEN mp, OF conjI [OF reads(1) conjI [OF reads(2) reads(3)]]]
  note w2 = w [THEN conjunct2, THEN conjunct1, THEN mp,
      OF conjI [OF new conjI [OF pre conjI [OF reads(1) conjI [OF reads(2) reads(3)]]]]]
  show ?thesis
    by (intro conjI new pre reads z w1 w2)
qed

text \<open>
  Claim C8, as amended. When computing the derived metrics of a new liquidation event
  divides by zero, \<open>checkForNewLiquidations\<close> throws at that event: the entries logged for
  the earlier new events of the pass, which completed, remain, no warn-level record and no
  alert are logged for the event, no later event is processed, and the monitor, its
  liquidation watermark included, is left as it was.
\<close>

theorem division_by_zero_aborts_pass:
  "(dividesByZero this event \<longleftrightarrow>
      (\<exists>time cr tokenPrice.
         liquidations (empContract this) (LiquidationEvent.sponsor event) (liquidationId event)
           = Inr time
         \<and> collateralRequirement (empContract this) = Inr cr
         \<and> getHistoricalPrice (priceFeed this) time = Some tokenPrice
         \<and> (isl (calculatePositionCRPercent (liquidatedCollateral event)
                   (tokensOutstanding event) tokenPrice)
            \<or> isl (calculateDisputablePrice cr (liquidatedCollateral event)
                     (tokensOutstanding event)))))
   \<and> (dividesByZero this event \<longrightarrow>
        liquidationIteration U this event = ([], Some (Error ''Assertion failed'')))
   \<and> (liquidations (empContract this) (LiquidationEvent.sponsor event) (liquidationId event)
         = Inr time
       \<and> collateralRequirement (empContract this) = Inr cr
    \<longrightarrow>
      (dividesByZero this event \<longleftrightarrow>
         liquidationIteration U this event = ([], Some (Error ''Assertion failed''))))
   \<and> (newLiquidationEvents this latest = pre @ event # post
        \<and> list_all (iterationCompletes U this) pre
        \<and> dividesByZero this event
    \<longrightarrow>
      checkForNewLiquidations U this latest =
        (this,
         \<lparr> level = Debug, at = ''ContractMonitor'',
           message = ''Checking for new liquidation events'',
           details = [(''lastLiquidationBlockNumber'',
                       Number (lastLiquidationBlockNumber this))] \<rparr>
         # concat (map (iterationEntries U this) pre),
         Some (Error ''Assertion failed'')))"
proof (intro conjI impI)
  show "dividesByZero this event \<longleftrightarrow>
      (\<exists>time cr tokenPrice.
         liquidations (empContract this) (LiquidationEvent.sponsor event) (liquidationId event)
           = Inr time
         \<and> collateralRequirement (empContract this) = Inr cr
         \<and> getHistoricalPrice (priceFeed this) time = Some tokenPrice
         \<and> (isl (calculatePositionCRPercent (liquidatedCollateral event)
                   (tokensOutstanding event) tokenPrice)
            \<or> isl (calculateDisputablePrice cr (liquidatedCollateral event)
                     (tokensOutstanding event))))"
    by (auto simp: dividesByZero_def calculatePositionCRPercent_cases
        calculateDisputablePrice_cases split: sum.splits option.splits)
next
  assume "dividesByZero this event"
  then show "liquidationIteration U this event = ([], Some (Error ''Assertion failed''))"
    by (rule liquidationIteration_dividesByZero)
next
  assume "liquidations (empContract this) (LiquidationEvent.sponsor event) (liquidationId event)
         = Inr time
       \<and> collateralRequirement (empContract this) = Inr cr"
  then show "dividesByZero this event \<longleftrightarrow>
         liquidationIteration U this event = ([], Some (Error ''Assertion failed''))"
    by (cases "getHistoricalPrice (priceFeed this) time")
      (auto simp: dividesByZero_def liquidationIteration_def logLiquidationAlert_def
        liquidationMrkdwn_def Let_def calculatePositionCRPercent_cases
        calculateDisputablePrice_cases)
next
  assume "newLiquidationEvents this latest = pre @ event # post
        \<and> list_all (iterationCompletes U this) pre
        \<and> dividesByZero this event"
  then have new: "newLiquidationEvents this latest = pre @ event # post"
    and pre: "list_all (iterationCompletes U this) pre"
    and dz: "dividesByZero this event"
    by simp_all
  have it: "liquidationIteration U this event = ([], Some (Error ''Assertion failed''))"
    using dz by (rule liquidationIteration_dividesByZero)
  then have thr: "snd (liquidationIteration U this event) = Some (Error ''Assertion failed'')"
    and ent: "iterationEntries U this event = []"
    by (simp_all add: iterationEntries_def)
  show "checkForNewLiquidations U this latest =
        (this,
         \<lparr> level = Debug, at = ''ContractMonitor'',
           message = ''Checking for new liquidation events'',
           details = [(''lastLiquidationBlockNumber'',
                       Number (lastLiquidationBlockNumber this))] \<rparr>
         # concat (map (iterationEntries U this) pre),
         Some (Error ''Assertion failed''))"
    using checkForNewLiquidations_abort [OF new pre thr] by (simp add: ent)
qed

text \<open>A pass of three new events whose second one has a zero price.\<close>

theorem division_by_zero_aborts_pass_witness:
  "newLiquidationEvents exampleMonitor [liquidationAt 4 100, liquidationAt 5 200, liquidationAt 6 100]
     = [liquidationAt 4 100] @ liquidationAt 5 200 # [liquidationAt 6 100]
   \<and> list_all (iterationCompletes exampleUtils exampleMonitor) [liquidationAt 4 100]
   \<and> dividesByZero exampleMonitor (liquidationAt 5 200)
   \<and> liquidationIteration exampleUtils exampleMonitor (liquidationAt 5 200)
       = ([], Some (Error ''Assertion failed''))
   \<and> liquidations (empContract exampleMonitor) (LiquidationEvent.sponsor (liquidationAt 4 100))
        (liquidationId (liquidationAt 4 100)) = Inr 100
   \<and> collateralRequirement (empContract exampleMonitor) = Inr (12 * 10 ^ 17)
   \<and> (dividesByZero exampleMonitor (liquidationAt 4 100) \<longleftrightarrow>
        liquidationIteration exampleUtils exampleMonitor (liquidationAt 4 100)
          = ([], Some (Error ''Assertion failed'')))
   \<and> checkForNewLiquidations exampleUtils exampleMonitor
        [liquidationAt 4 100, liquidationAt 5 200, liquidationAt 6 100] =
        (exampleMonitor,
         \<lparr> level = Debug, at = ''ContractMonitor'',
           message = ''Checking for new liquidation events'',
           details = [(''lastLiquidationBlockNumber'',
                       Number (lastLiquidationBlockNumber exampleMonitor))] \<rparr>
         # concat (map (iterationEntries exampleUtils exampleMonitor) [liquidationAt 4 100]),
         Some (Error ''Assertion failed''))"
proof -
  have new: "newLiquidationEvents exampleMonitor
       [liquidationAt 4 100, liquidationAt 5 200, liquidationAt 6 100]
     = [liquidationAt 4 100] @ liquidationAt 5 200 # [liquidationAt 6 100]"
    by (simp add: newLiquidationEvents_def example_defs)
  have pre: "list_all (iterationCompletes exampleUtils exampleMonitor) [liquidationAt 4 100]"
    by (simp add: iterationCompletes_def example_defs method_defs)
  have dz: "dividesByZero exampleMonitor (liquidationAt 5 200)"
    by (simp add: dividesByZero_def example_defs)
  note w = division_by_zero_aborts_pass [where this = exampleMonitor and U = exampleUtils
      and event = "liquidationAt 5 200" and pre = "[liquidationAt 4 100]"
      and post = "[liquidationAt 6 100]"
      and latest = "[liquidationAt 4 100, liquidationAt 5 200, liquidationAt 6 100]"]
  note w1 = w [THEN conjunct2, THEN conjunct1, THEN mp, OF dz]
  note w2 = w [THEN conjunct2, THEN conjunct2, THEN conjunct2, THEN mp,
      OF conjI [OF new conjI [OF pre dz]]]
  have reads: "liquidations (empContract exampleMonitor)
        (LiquidationEvent.sponsor (liquidationAt 4 100))
        (liquidationId (liquidationAt 4 100)) = Inr 100"
    "collateralRequirement (empContract exampleMonitor) = Inr (12 * 10 ^ 17)"
    by (simp_all add: example_defs)
  note v = division_by_zero_aborts_pass [where this = exampleMonitor and U = exampleUtils
      and event = "liquidationAt 4 100" and time = 100 and cr = "12 * 10 ^ 17"]
  note w3 = v [THEN conjunct2, THEN conjunct2, THEN conjunct1, THEN mp,
      OF conjI [OF reads(1) reads(2)]]
  show ?thesis
    by (intro conjI new pre dz w1 w2 reads w3)
qed

text \<open>
  The claim as stated fails: on a zero price for the first of two new events the method
  logs its debug entry only (no warn-level record, no alert marked \<open>[Invalid]\<close>, nothing
  for the second event) and the watermark stays at 0 although the list ends at block 6.
\<close>

theorem division_by_zero_aborts_counterexample:
  "liquidationIteration exampleUtils exampleMonitor (liquidationAt 5 200)
     = ([], Some (Error ''Assertion failed''))
   \<and> checkForNewLiquidations exampleUtils exampleMonitor [liquidationAt 5 200, liquidationAt 6 100]
       = (exampleMonitor,
          [\<lparr> level = Debug, at = ''ContractMonitor'',
             message = ''Checking for new liquidation events'',
             details = [(''lastLiquidationBlockNumber'', Number 0)] \<rparr>],
          Some (Error ''Assertion failed''))
   \<and> lastLiquidationBlockNumber exampleMonitor = 0
   \<and> getLastSeenBlockNumber [liquidationAt 5 200, liquidationAt 6 100] = 6"
proof -
  have dz: "dividesByZero exampleMonitor (liquidationAt 5 200)"
    by (simp add: dividesByZero_def example_defs)
  have new: "newLiquidationEvents exampleMonitor [liquidationAt 5 200, liquidationAt 6 100]
      = [] @ liquidationAt 5 200 # [liquidationAt 6 100]"
    by (simp add: newLiquidationEvents_def example_defs)
  have z: "lastLiquidationBlockNumber exampleMonitor = 0"
    "getLastSeenBlockNumber [liquidationAt 5 200, liquidationAt 6 100] = 6"
    by (simp_all add: example_defs getLastSeenBlockNumber_def)
  have it: "liquidationIteration exampleUtils exampleMonitor (liquidationAt 5 200)
      = ([], Some (Error ''Assertion failed''))"
    using dz by (rule liquidationIteration_dividesByZero)
  then have thr: "snd (liquidationIteration exampleUtils exampleMonitor (liquidationAt 5 200))
      = Some (Error ''Assertion failed'')"
    and ent: "iterationEntries exampleUtils exampleMonitor (liquidationAt 5 200) = []"
    by (simp_all add: iterationEntries_def)
  show ?thesis
    using checkForNewLiquidations_abort [OF new _ thr] z it by (simp add: ent)
qed

section \<open>The monitored addresses\<close>

text \<open>
  Claim C9. Two runs of a check-method that differ only in the monitored liquidators and
  disputers select the same new events, log entries with the same levels, origins and
  titles in the same order, throw or complete alike, and update the watermarks alike. In
  the message text the lists decide only whether the annotation \<open>(Monitored ...)\<close> follows
  an address (a liquidation message that cannot be built, for want of a price, cannot be
  built in either run).
\<close>

theorem monitored_sets_cosmetic:
  "newSponsorEvents (this\<lparr>monitoredLiquidators := L, monitoredDisputers := D\<rparr>) sponsorList
     = newSponsorEvents this sponsorList
   \<and> map heading (snd (checkForNewSponsors U
        (this\<lparr>monitoredLiquidators := L, monitoredDisputers := D\<rparr>) sponsorList))
     = map heading (snd (checkForNewSponsors U this sponsorList))
   \<and> fst (checkForNewSponsors U (this\<lparr>monitoredLiquidators := L, monitoredDisputers := D\<rparr>)
        sponsorList)
     = (fst (checkForNewSponsors U this sponsorList))
         \<lparr>monitoredLiquidators := L, monitoredDisputers := D\<rparr>
   \<and> newLiquidationEvents (this\<lparr>monitoredLiquidators := L, monitoredDisputers := D\<rparr>)
        liquidationList
     = newLiquidationEvents this liquidationList
   \<and> map heading (fst (snd (checkForNewLiquidations U
        (this\<lparr>monitoredLiquidators := L, monitoredDisputers := D\<rparr>) liquidationList)))
     = map heading (fst (snd (checkForNewLiquidations U this liquidationList)))
   \<and> snd (snd (checkForNewLiquidations U
        (this\<lparr>monitoredLiquidators := L, monitoredDisputers := D\<rparr>) liquidationList))
     = snd (snd (checkForNewLiquidations U this liquidationList))
   \<and> fst (checkForNewLiquidations U (this\<lparr>monitoredLiquidators := L, monitoredDisputers := D\<rparr>)
        liquidationList)
     = (fst (checkForNewLiquidations U this liquidationList))
         \<lparr>monitoredLiquidators := L, monitoredDisputers := D\<rparr>
   \<and> newDisputeEvents (this\<lparr>monitoredLiquidators := L, monitoredDisputers := D\<rparr>) disputeList
     = newDisputeEvents this disputeList
   \<and> map heading (snd (checkForNewDisputeEvents U
        (this\<lparr>monitoredLiquidators := L, monitoredDisputers := D\<rparr>) disputeList))
     = map heading (snd (checkForNewDisputeEvents U this disputeList))
   \<and> fst (checkForNewDisputeEvents U (this\<lparr>monitoredLiquidators := L, monitoredDisputers := D\<rparr>)
        disputeList)
     = (fst (checkForNewDisputeEvents U this disputeList))
         \<lparr>monitoredLiquidators := L, monitoredDisputers := D\<rparr>
   \<and> newDisputeSettlementEvents (this\<lparr>monitoredLiquidators := L, monitoredDisputers := D\<rparr>)
        settlementList
     = newDisputeSettlementEvents this settlementList
   \<and> map heading (snd (checkForNewDisputeSettlementEvents U
        (this\<lparr>monitoredLiquidators := L, monitoredDisputers := D\<rparr>) settlementList))
     = map heading (snd (checkForNewDisputeSettlementEvents U this settlementList))
   \<and> fst (checkForNewDisputeSettlementEvents U
        (this\<lparr>monitoredLiquidators := L, monitoredDisputers := D\<rparr>) settlementList)
     = (fst (checkForNewDisputeSettlementEvents U this settlementList))
         \<lparr>monitoredLiquidators := L, monitoredDisputers := D\<rparr>
   \<and> newSponsorMrkdwn U (this\<lparr>monitoredLiquidators := L, monitoredDisputers := D\<rparr>) sponsorEvent
     = createEtherscanLinkMarkdown U (NewSponsorEvent.sponsor sponsorEvent)
         (networkId (empProps this))
       @ (if NewSponsorEvent.sponsor sponsorEvent \<in> set L \<union> set D
          then '' (Monitored liquidator or disputer bot)'' else [])
       @ drop (length (createEtherscanLinkMarkdown U (NewSponsorEvent.sponsor sponsorEvent)
                         (networkId (empProps this))))
           (newSponsorMrkdwn U (this\<lparr>monitoredLiquidators := [], monitoredDisputers := []\<rparr>)
              sponsorEvent)
   \<and> liquidationMrkdwn U (this\<lparr>monitoredLiquidators := L, monitoredDisputers := D\<rparr>)
        liquidationEvent cs ms price cr
     = map_sum id
         (\<lambda>unannotated.
            createEtherscanLinkMarkdown U (LiquidationEvent.liquidator liquidationEvent)
              (networkId (empProps this))
            @ (if LiquidationEvent.liquidator liquidationEvent \<in> set L
               then '' (Monitored liquidator bot)'' else [])
            @ drop (length (createEtherscanLinkMarkdown U
                              (LiquidationEvent.liquidator liquidationEvent)
                              (networkId (empProps this))))
                unannotated)
         (liquidationMrkdwn U (this\<lparr>monitoredLiquidators := [], monitoredDisputers := []\<rparr>)
            liquidationEvent cs ms price cr)
   \<and> disputeMrkdwn U (this\<lparr>monitoredLiquidators := L, monitoredDisputers := D\<rparr>) disputeEvent
     = createEtherscanLinkMarkdown U (DisputeEvent.disputer disputeEvent) (networkId (empProps this))
       @ (if DisputeEvent.disputer disputeEvent \<in> set D
          then '' (Monitored dispute bot)'' else [])
       @ '' initiated dispute against liquidator ''
       @ createEtherscanLinkMarkdown U (DisputeEvent.liquidator disputeEvent)
           (networkId (empProps this))
       @ (if DisputeEvent.liquidator disputeEvent \<in> set L
          then '' (Monitored liquidator bot)'' else [])
       @ '' with a dispute bond of ''
       @ formatDecimalString this (disputeBondAmount disputeEvent)
       @ '' ''
       @ collateralCurrencySymbol (empProps this)
       @ ''. tx: ''
       @ createEtherscanLinkMarkdown U (transactionHash disputeEvent) (networkId (empProps this))
   \<and> disputeSettlementMrkdwn U (this\<lparr>monitoredLiquidators := L, monitoredDisputers := D\<rparr>)
        settlementEvent
     = ''Dispute between liquidator ''
       @ createEtherscanLinkMarkdown U (DisputeSettlementEvent.liquidator settlementEvent)
           (networkId (empProps this))
       @ (if DisputeSettlementEvent.liquidator settlementEvent \<in> set L
          then ''(Monitored liquidator bot)'' else [])
       @ '' and disputer ''
       @ createEtherscanLinkMarkdown U (DisputeSettlementEvent.disputer settlementEvent)
           (networkId (empProps this))
       @ (if DisputeSettlementEvent.disputer settlementEvent \<in> set D
          then ''(Monitored dispute bot)'' else [])
       @ '' has been resolved as ''
       @ (if disputeSucceeded settlementEvent then ''success'' else ''failed'')
       @ ''. tx: ''
       @ createEtherscanLinkMarkdown U (transactionHash settlementEvent) (networkId (empProps this))"
proof (intro conjI)
  show "newSponsorEvents (this\<lparr>monitoredLiquidators := L, monitoredDisputers := D\<rparr>) sponsorList
     = newSponsorEvents this sponsorList"
    by (simp add: newSponsorEvents_def)
  show "map heading (snd (checkForNewSponsors U
        (this\<lparr>monitoredLiquidators := L, monitoredDisputers := D\<rparr>) sponsorList))
     = map heading (snd (checkForNewSponsors U this sponsorList))"
    by (simp add: checkForNewSponsors_def newSponsorEvents_def heading_def newSponsorAlert_def)
  show "fst (checkForNewSponsors U (this\<lparr>monitoredLiquidators := L, monitoredDisputers := D\<rparr>)
        sponsorList)
     = (fst (checkForNewSponsors U this sponsorList))
         \<lparr>monitoredLiquidators := L, monitoredDisputers := D\<rparr>"
    by (simp add: checkForNewSponsors_def)
  show "newLiquidationEvents (this\<lparr>monitoredLiquidators := L, monitoredDisputers := D\<rparr>)
        liquidationList
     = newLiquidationEvents this liquidationList"
    by (simp add: newLiquidationEvents_def)
  show "map heading (fst (snd (checkForNewLiquidations U
        (this\<lparr>monitoredLiquidators := L, monitoredDisputers := D\<rparr>) liquidationList)))
     = map heading (fst (snd (checkForNewLiquidations U this liquidationList)))"
    by (simp add: checkForNewLiquidations_sets)
  show "snd (snd (checkForNewLiquidations U
        (this\<lparr>monitoredLiquidators := L, monitoredDisputers := D\<rparr>) liquidationList))
     = snd (snd (checkForNewLiquidations U this liquidationList))"
    by (simp add: checkForNewLiquidations_sets)
  show "fst (checkForNewLiquidations U (this\<lparr>monitoredLiquidators := L, monitoredDisputers := D\<rparr>)
        liquidationList)
     = (fst (checkForNewLiquidations U this liquidationList))
         \<lparr>monitoredLiquidators := L, monitoredDisputers := D\<rparr>"
    by (simp add: checkForNewLiquidations_sets)
  show "newDisputeEvents (this\<lparr>monitoredLiquidators := L, monitoredDisputers := D\<rparr>) disputeList
     = newDisputeEvents this disputeList"
    by (simp add: newDisputeEvents_def)
  show "map heading (snd (checkForNewDisputeEvents U
        (this\<lparr>monitoredLiquidators := L, monitoredDisputers := D\<rparr>) disputeList))
     = map heading (snd (checkForNewDisputeEvents U this disputeList))"
    by (simp add: checkForNewDisputeEvents_def newDisputeEvents_def heading_def disputeAlert_def)
  show "fst (checkForNewDisputeEvents U (this\<lparr>monitoredLiquidators := L, monitoredDisputers := D\<rparr>)
        disputeList)
     = (fst (checkForNewDisputeEvents U this disputeList))
         \<lparr>monitoredLiquidators := L, monitoredDisputers := D\<rparr>"
    by (simp add: checkForNewDisputeEvents_def)
  show "newDisputeSettlementEvents (this\<lparr>monitoredLiquidators := L, monitoredDisputers := D\<rparr>)
        settlementList
     = newDisputeSettlementEvents this settlementList"
    by (simp add: newDisputeSettlementEvents_def)
  show "map heading (snd (checkForNewDisputeSettlementEvents U
        (this\<lparr>monitoredLiquidators := L, monitoredDisputers := D\<rparr>) settlementList))
     = map heading (snd (checkForNewDisputeSettlementEvents U this settlementList))"
    by (simp add: checkForNewDisputeSettlementEvents_def newDisputeSettlementEvents_def
        heading_def disputeSettlementAlert_def)
  show "fst (checkForNewDisputeSettlementEvents U
        (this\<lparr>monitoredLiquidators := L, monitoredDisputers := D\<rparr>) settlementList)
     = (fst (checkForNewDisputeSettlementEvents U this settlementList))
         \<lparr>monitoredLiquidators := L, monitoredDisputers := D\<rparr>"
    by (simp add: checkForNewDisputeSettlementEvents_def)
  show "newSponsorMrkdwn U (this\<lparr>monitoredLiquidators := L, monitoredDisputers := D\<rparr>) sponsorEvent
     = createEtherscanLinkMarkdown U (NewSponsorEvent.sponsor sponsorEvent)
         (networkId (empProps this))
       @ (if NewSponsorEvent.sponsor sponsorEvent \<in> set L \<union> set D
          then '' (Monitored liquidator or disputer bot)'' else [])
       @ drop (length (createEtherscanLinkMarkdown U (NewSponsorEvent.sponsor sponsorEvent)
                         (networkId (empProps this))))
           (newSponsorMrkdwn U (this\<lparr>monitoredLiquidators := [], monitoredDisputers := []\<rparr>)
              sponsorEvent)"
    by (simp add: newSponsorMrkdwn_def Let_def indexOf_absent)
  show "liquidationMrkdwn U (this\<lparr>monitoredLiquidators := L, monitoredDisputers := D\<rparr>)
        liquidationEvent cs ms price cr
     = map_sum id
         (\<lambda>unannotated.
            createEtherscanLinkMarkdown U (LiquidationEvent.liquidator liquidationEvent)
              (networkId (empProps this))
            @ (if LiquidationEvent.liquidator liquidationEvent \<in> set L
               then '' (Monitored liquidator bot)'' else [])
            @ drop (length (createEtherscanLinkMarkdown U
                              (LiquidationEvent.liquidator liquidationEvent)
                              (networkId (empProps this))))
                unannotated)
         (liquidationMrkdwn U (this\<lparr>monitoredLiquidators := [], monitoredDisputers := []\<rparr>)
            liquidationEvent cs ms price cr)"
    by (simp add: liquidationMrkdwn_def indexOf_absent split: option.splits)
  show "disputeMrkdwn U (this\<lparr>monitoredLiquidators := L, monitoredDisputers := D\<rparr>) disputeEvent
     = createEtherscanLinkMarkdown U (DisputeEvent.disputer disputeEvent) (networkId (empProps this))
       @ (if DisputeEvent.disputer disputeEvent \<in> set D
          then '' (Monitored dispute bot)'' else [])
       @ '' initiated dispute against liquidator ''
       @ createEtherscanLinkMarkdown U (DisputeEvent.liquidator disputeEvent)
           (networkId (empProps this))
       @ (if DisputeEvent.liquidator disputeEvent \<in> set L
          then '' (Monitored liquidator bot)'' else [])
       @ '' with a dispute bond of ''
       @ formatDecimalString this (disputeBondAmount disputeEvent)
       @ '' ''
       @ collateralCurrencySymbol (empProps this)
       @ ''. tx: ''
       @ createEtherscanLinkMarkdown U (transactionHash disputeEvent) (networkId (empProps this))"
    by (simp add: disputeMrkdwn_def indexOf_absent)
  show "disputeSettlementMrkdwn U (this\<lparr>monitoredLiquidators := L, monitoredDisputers := D\<rparr>)
        settlementEvent
     = ''Dispute between liquidator ''
       @ createEtherscanLinkMarkdown U (DisputeSettlementEvent.liquidator settlementEvent)
           (networkId (empProps this))
       @ (if DisputeSettlementEvent.liquidator settlementEvent \<in> set L
          then ''(Monitored liquidator bot)'' else [])
       @ '' and disputer ''
       @ createEtherscanLinkMarkdown U (DisputeSettlementEvent.disputer settlementEvent)
           (networkId (empProps this))
       @ (if DisputeSettlementEvent.disputer settlementEvent \<in> set D
          then ''(Monitored dispute bot)'' else [])
       @ '' has been resolved as ''
       @ (if disputeSucceeded settlementEvent then ''success'' else ''failed'')
       @ ''. tx: ''
       @ createEtherscanLinkMarkdown U (transactionHash settlementEvent) (networkId (empProps this))"
    by (simp add: disputeSettlementMrkdwn_def indexOf_absent)
qed

text \<open>
  Adding the sponsor's address to the monitored liquidators changes the message by the
  annotation only; levels, titles and the watermark are as before.
\<close>

theorem monitored_sets_cosmetic_witness:
  "map heading (snd (checkForNewSponsors exampleUtils
        (exampleMonitor\<lparr>monitoredLiquidators := [''0x9abc''], monitoredDisputers := []\<rparr>)
        [sponsorAt 10]))
     = map heading (snd (checkForNewSponsors exampleUtils exampleMonitor [sponsorAt 10]))
   \<and> map level (snd (checkForNewSponsors exampleUtils exampleMonitor [sponsorAt 10]))
     = [Debug, Info]
   \<and> lastNewSponsorBlockNumber (fst (checkForNewSponsors exampleUtils
        (exampleMonitor\<lparr>monitoredLiquidators := [''0x9abc''], monitoredDisputers := []\<rparr>)
        [sponsorAt 10])) = 10
   \<and> newSponsorMrkdwn exampleUtils exampleMonitor (sponsorAt 10)
     = ''<0x9abc> created amount ETHBTC backed by amount DAI. tx: <0xaa>''
   \<and> newSponsorMrkdwn exampleUtils
        (exampleMonitor\<lparr>monitoredLiquidators := [''0x9abc''], monitoredDisputers := []\<rparr>)
        (sponsorAt 10)
     = ''<0x9abc> (Monitored liquidator or disputer bot) created amount ETHBTC backed by amount DAI. tx: <0xaa>''
   \<and> map heading (fst (snd (checkForNewLiquidations exampleUtils
        (exampleMonitor\<lparr>monitoredLiquidators := [''0x9abc''], monitoredDisputers := []\<rparr>)
        [liquidationAt 5 100, liquidationAt 8 100])))
     = map heading (fst (snd (checkForNewLiquidations exampleUtils exampleMonitor
        [liquidationAt 5 100, liquidationAt 8 100])))
   \<and> map level (fst (snd (checkForNewLiquidations exampleUtils exampleMonitor
        [liquidationAt 5 100, liquidationAt 8 100])))
     = [Debug, Info, Info]
   \<and> snd (snd (checkForNewLiquidations exampleUtils
        (exampleMonitor\<lparr>monitoredLiquidators := [''0x9abc''], monitoredDisputers := []\<rparr>)
        [liquidationAt 5 100, liquidationAt 8 100]))
     = snd (snd (checkForNewLiquidations exampleUtils exampleMonitor
        [liquidationAt 5 100, liquidationAt 8 100]))"
proof -
  note w = monitored_sets_cosmetic [where this = exampleMonitor and U = exampleUtils
      and L = "[''0x9abc'']" and D = "[]" and sponsorList = "[sponsorAt 10]"
      and liquidationList = "[liquidationAt 5 100, liquidationAt 8 100]"
      and disputeList = "[]" and settlementList = "[]" and sponsorEvent = "sponsorAt 10"
      and liquidationEvent = "liquidationAt 5 100" and cs = "[]" and ms = "[]"
      and price = None and cr = 0 and disputeEvent = "disputeAt 1"
      and settlementEvent = "disputeSettlementAt 1"]
  have 1: "map heading (snd (checkForNewSponsors exampleUtils
        (exampleMonitor\<lparr>monitoredLiquidators := [''0x9abc''], monitoredDisputers := []\<rparr>)
        [sponsorAt 10]))
     = map heading (snd (checkForNewSponsors exampleUtils exampleMonitor [sponsorAt 10]))"
    using w by blast
  have 2: "map heading (fst (snd (checkForNewLiquidations exampleUtils
        (exampleMonitor\<lparr>monitoredLiquidators := [''0x9abc''], monitoredDisputers := []\<rparr>)
        [liquidationAt 5 100, liquidationAt 8 100])))
     = map heading (fst (snd (checkForNewLiquidations exampleUtils exampleMonitor
        [liquidationAt 5 100, liquidationAt 8 100])))"
    using w by blast
  have 3: "snd (snd (checkForNewLiquidations exampleUtils
        (exampleMonitor\<lparr>monitoredLiquidators := [''0x9abc''], monitoredDisputers := []\<rparr>)
        [liquidationAt 5 100, liquidationAt 8 100]))
     = snd (snd (checkForNewLiquidations exampleUtils exampleMonitor
        [liquidationAt 5 100, liquidationAt 8 100]))"
    using w by blast
  have 4: "map level (snd (checkForNewSponsors exampleUtils exampleMonitor [sponsorAt 10]))
     = [Debug, Info]"
    "lastNewSponsorBlockNumber (fst (checkForNewSponsors exampleUtils
        (exampleMonitor\<lparr>monitoredLiquidators := [''0x9abc''], monitoredDisputers := []\<rparr>)
        [sponsorAt 10])) = 10"
    by (simp_all add: example_defs method_defs newSponsorAlert_def)
  have 5: "newSponsorMrkdwn exampleUtils exampleMonitor (sponsorAt 10)
     = ''<0x9abc> created amount ETHBTC backed by amount DAI. tx: <0xaa>''"
    "newSponsorMrkdwn exampleUtils
        (exampleMonitor\<lparr>monitoredLiquidators := [''0x9abc''], monitoredDisputers := []\<rparr>)
        (sponsorAt 10)
     = ''<0x9abc> (Monitored liquidator or disputer bot) created amount ETHBTC backed by amount DAI. tx: <0xaa>''"
    by (simp_all add: example_defs newSponsorMrkdwn_def Let_def)
  have 6: "map level (fst (snd (checkForNewLiquidations exampleUtils exampleMonitor
        [liquidationAt 5 100, liquidationAt 8 100])))
     = [Debug, Info, Info]"
    by (simp add: example_defs method_defs liquidationAlert_def priceMissWarning_def)
  show ?thesis
    by (intro conjI 1 2 3 4 5 6)
qed

section \<open>The synthetic currency symbol in liquidation alerts\<close>

text \<open>
  Claim C10. In a monitor built by the constructor, after any number of invocations of
  \<open>checkForNewLiquidations\<close>, the message of a liquidation alert has the text
  \<open>undefined\<close> where the token symbol belongs: the property
  \<open>this.syntheticCurrencySymbol\<close> is never assigned, while the configured symbol stays
  inside \<open>empProps\<close>. The entries logged by \<open>checkForNewLiquidations\<close> are the same
  whatever symbol is configured.
\<close>

theorem liquidation_alert_symbol_undefined:
  "liquidationMrkdwn U (liquidationsAfter U (constructor U client config feed props) fetches)
      event collateralizationString maxPriceToBeDisputableString (Some tokenPrice)
      crRequirementString
     = Inr (createEtherscanLinkMarkdown U (LiquidationEvent.liquidator event) (networkId props)
       @ (if LiquidationEvent.liquidator event
               \<in> set (contractMonitorConfigObject.monitoredLiquidators config)
          then '' (Monitored liquidator bot)'' else [])
       @ '' initiated liquidation for ''
       @ createFormatFunction U 2 4 (lockedCollateral event)
       @ '' (liquidated collateral = ''
       @ createFormatFunction U 2 4 (liquidatedCollateral event)
       @ '') ''
       @ collateralCurrencySymbol props
       @ '' of sponsor ''
       @ createEtherscanLinkMarkdown U (LiquidationEvent.sponsor event) (networkId props)
       @ '' collateral backing ''
       @ createFormatFunction U 2 4 (tokensOutstanding event)
       @ '' ''
       @ ''undefined''
       @ '' tokens. Sponsor collateralization ('' @ [CHR 0x27]
       @ ''liquidatedCollateral / tokensOutsanding'' @ [CHR 0x27] @ '') was ''
       @ collateralizationString
       @ ''%, using ''
       @ createFormatFunction U 2 4 tokenPrice
       @ '' as the estimated price at liquidation time. With a collateralization requirement of ''
       @ createFormatFunction U 2 4 crRequirementString
       @ ''%, this liquidation would be disputable at a price below ''
       @ maxPriceToBeDisputableString
       @ ''. tx: ''
       @ createEtherscanLinkMarkdown U (transactionHash event) (networkId props))
   \<and> liquidationMrkdwn U (liquidationsAfter U (constructor U client config feed props) fetches)
      event collateralizationString maxPriceToBeDisputableString None crRequirementString
     = Inl TypeError
   \<and> fst (snd (checkForNewLiquidations U
        (liquidationsAfter U
           (constructor U client config feed (props\<lparr>EmpProps.syntheticCurrencySymbol := symbol\<rparr>)) fetches)
        latest))
     = fst (snd (checkForNewLiquidations U
        (liquidationsAfter U (constructor U client config feed props) fetches) latest))
   \<and> ContractMonitor.syntheticCurrencySymbol
        (liquidationsAfter U (constructor U client config feed props) fetches) = None
   \<and> EmpProps.syntheticCurrencySymbol
        (empProps (liquidationsAfter U (constructor U client config feed props) fetches))
     = EmpProps.syntheticCurrencySymbol props"
proof -
  obtain n where n: "liquidationsAfter U (constructor U client config feed props) fetches
      = (constructor U client config feed props)\<lparr>lastLiquidationBlockNumber := n\<rparr>"
    using liquidationsAfter_frame by blast
  have 1: "liquidationMrkdwn U (liquidationsAfter U (constructor U client config feed props) fetches)
      event collateralizationString maxPriceToBeDisputableString (Some tokenPrice)
      crRequirementString
     = Inr (createEtherscanLinkMarkdown U (LiquidationEvent.liquidator event) (networkId props)
       @ (if LiquidationEvent.liquidator event
               \<in> set (contractMonitorConfigObject.monitoredLiquidators config)
          then '' (Monitored liquidator bot)'' else [])
       @ '' initiated liquidation for ''
       @ createFormatFunction U 2 4 (lockedCollateral event)
       @ '' (liquidated collateral = ''
       @ createFormatFunction U 2 4 (liquidatedCollateral event)
       @ '') ''
       @ collateralCurrencySymbol props
       @ '' of sponsor ''
       @ createEtherscanLinkMarkdown U (LiquidationEvent.sponsor event) (networkId props)
       @ '' collateral backing ''
       @ createFormatFunction U 2 4 (tokensOutstanding event)
       @ '' ''
       @ ''undefined''
       @ '' tokens. Sponsor collateralization ('' @ [CHR 0x27]
       @ ''liquidatedCollateral / tokensOutsanding'' @ [CHR 0x27] @ '') was ''
       @ collateralizationString
       @ ''%, using ''
       @ createFormatFunction U 2 4 tokenPrice
       @ '' as the estimated price at liquidation time. With a collateralization requirement of ''
       @ createFormatFunction U 2 4 crRequirementString
       @ ''%, this liquidation would be disputable at a price below ''
       @ maxPriceToBeDisputableString
       @ ''. tx: ''
       @ createEtherscanLinkMarkdown U (transactionHash event) (networkId props))"
    unfolding n liquidationMrkdwn_watermark
    by (simp add: liquidationMrkdwn_def constructor_def jsString_def indexOf_absent)
  have absent: "liquidationMrkdwn U
      (liquidationsAfter U (constructor U client config feed props) fetches)
      event collateralizationString maxPriceToBeDisputableString None crRequirementString
     = Inl TypeError"
    by (simp add: liquidationMrkdwn_def)
  obtain m' entries thrown where r:
    "checkForNewLiquidations U
       (liquidationsAfter U (constructor U client config feed props) fetches) latest
     = (m', entries, thrown)"
    by (cases "checkForNewLiquidations U
       (liquidationsAfter U (constructor U client config feed props) fetches) latest")
  have 2: "fst (snd (checkForNewLiquidations U
        (liquidationsAfter U
           (constructor U client config feed (props\<lparr>EmpProps.syntheticCurrencySymbol := symbol\<rparr>)) fetches)
        latest))
     = fst (snd (checkForNewLiquidations U
        (liquidationsAfter U (constructor U client config feed props) fetches) latest))"
    by (simp add: constructor_symbol liquidationsAfter_symbol checkForNewLiquidations_symbol r)
  have 3: "ContractMonitor.syntheticCurrencySymbol
        (liquidationsAfter U (constructor U client config feed props) fetches) = None"
    "EmpProps.syntheticCurrencySymbol
        (empProps (liquidationsAfter U (constructor U client config feed props) fetches))
     = EmpProps.syntheticCurrencySymbol props"
    unfolding n by (simp_all add: constructor_def)
  from 1 absent 2 3 show ?thesis by (intro conjI)
qed

text \<open>
  The message of the alert of a liquidation with a price, after one earlier pass: the
  configured symbol is \<open>ETHBTC\<close>, the message says \<open>undefined\<close>.
\<close>

theorem liquidation_alert_symbol_undefined_witness:
  "liquidationMrkdwn exampleUtils
      (liquidationsAfter exampleUtils
         (constructor exampleUtils exampleClient exampleConfig exampleFeed exampleProps)
         [[liquidationAt 5 100]])
      (liquidationAt 8 100) ''200.00'' ''1.00'' (Some (10 ^ 18)) (120 * 10 ^ 18)
     = Inr (''<0x1234> (Monitored liquidator bot) initiated liquidation for amount''
       @ '' (liquidated collateral = amount) DAI of sponsor <0x9abc> collateral backing amount''
       @ '' undefined tokens. Sponsor collateralization ('' @ [CHR 0x27]
       @ ''liquidatedCollateral / tokensOutsanding'' @ [CHR 0x27] @ '') was 200.00%, using amount''
       @ '' as the estimated price at liquidation time. With a collateralization requirement of''
       @ '' amount%, this liquidation would be disputable at a price below 1.00. tx: <0xbb>'')
   \<and> EmpProps.syntheticCurrencySymbol exampleProps = ''ETHBTC''"
  using liquidation_alert_symbol_undefined [where U = exampleUtils and client = exampleClient
      and config = exampleConfig and feed = exampleFeed and props = exampleProps
      and fetches = "[[liquidationAt 5 100]]" and event = "liquidationAt 8 100"
      and collateralizationString = "''200.00''"
      and maxPriceToBeDisputableString = "''1.00''" and tokenPrice = "10 ^ 18"
      and crRequirementString = "120 * 10 ^ 18" and symbol = "''x''" and latest = "[]"]
  by (simp add: exampleUtils_def exampleProps_def exampleConfig_def liquidationAt_def)

end
